theory Spec2Isabelle
  imports Main "HOL-Library.AList"
begin

section \<open>JavaScript values, objects and thrown errors\<close>

text \<open>
  The generator of \<^verbatim>\<open>src/core/generate.ts\<close> receives one plain object, takes seven
  named properties out of it and hands the remaining ones to the upstream library.
  The object is modelled as its list of own properties in insertion order, and
  a value as the shapes the declared types of \<^verbatim>\<open>src/core/types.ts\<close> admit.
  A string stands for its UTF-8 bytes.
\<close>

datatype error = Error string | TypeError string

record hooks =
  onStart :: "(unit \<Rightarrow> error option) option"
  onSkipFiles :: "(string \<Rightarrow> error option) option"
  onFileWritten :: "(string \<Rightarrow> error option) option"
  onHtmlWritten :: "(string \<Rightarrow> error option) option"
  onIcoCopied :: "(string \<Rightarrow> error option) option"

text \<open>
  A hook slot is absent (\<open>None\<close>) or holds a callback; a callback applied to its
  argument returns normally (\<open>None\<close>) or throws (\<open>Some e\<close>).
\<close>

datatype jsval =
    Undefined
  | Null
  | Bool bool
  | Num int
  | Str string
  | Hooks hooks
  | Obj "(string \<times> jsval) list"

type_synonym jsobject = "(string \<times> jsval) list"

text \<open>Truthiness, as \<^verbatim>\<open>!x\<close> and \<^verbatim>\<open>if (x)\<close> read it.\<close>

fun truthy :: "jsval \<Rightarrow> bool" where
  "truthy Undefined = False"
| "truthy Null = False"
| "truthy (Bool b) = b"
| "truthy (Num n) = (n \<noteq> 0)"
| "truthy (Str s) = (s \<noteq> [])"
| "truthy (Hooks h) = True"
| "truthy (Obj ps) = True"

text \<open>Reading a property: a missing key reads as \<^verbatim>\<open>undefined\<close>.\<close>

definition property :: "jsobject \<Rightarrow> string \<Rightarrow> jsval" where
  "property obj k = (case map_of obj k of None \<Rightarrow> Undefined | Some v \<Rightarrow> v)"

text \<open>
  Rest destructuring \<^verbatim>\<open>const { a, b, ...rest } = obj\<close>: \<open>rest\<close> receives every own
  property of \<open>obj\<close> whose key is not one of the names taken out, in the same order.
\<close>

definition rest_properties :: "string list \<Rightarrow> jsobject \<Rightarrow> jsobject" where
  "rest_properties taken obj = filter (\<lambda>kv. fst kv \<notin> set taken) obj"

text \<open>
  The string held by a property whose declared type is \<^verbatim>\<open>string\<close>. The generator
  hands such a property to the file system as it is; the model follows it on
  values of the declared type.
\<close>

fun path_of :: "jsval \<Rightarrow> string" where
  "path_of (Str s) = s"
| "path_of _ = []"

text \<open>
  The declared type \<^verbatim>\<open>RealFaviconOptions & { htmlOutput?: string; hooks?: ... }\<close>:
  each of the seven orchestration properties holds a value of its declared type
  or is \<^verbatim>\<open>undefined\<close>, and an object has each key once. The two required strings
  may be missing here, because the generator checks for that itself.
\<close>

fun opt_string :: "jsval \<Rightarrow> bool" where
  "opt_string Undefined = True"
| "opt_string (Str s) = True"
| "opt_string _ = False"

fun opt_boolean :: "jsval \<Rightarrow> bool" where
  "opt_boolean Undefined = True"
| "opt_boolean (Bool b) = True"
| "opt_boolean _ = False"

fun opt_hooks :: "jsval \<Rightarrow> bool" where
  "opt_hooks Undefined = True"
| "opt_hooks (Hooks h) = True"
| "opt_hooks _ = False"

definition well_typed :: "jsobject \<Rightarrow> bool" where
  "well_typed options \<longleftrightarrow>
     distinct (map fst options) \<and>
     opt_string (property options ''source'') \<and>
     opt_string (property options ''outputDir'') \<and>
     opt_string (property options ''htmlOutput'') \<and>
     opt_boolean (property options ''skipIfExists'') \<and>
     opt_boolean (property options ''copyIcoToRoot'') \<and>
     opt_string (property options ''rootDir'') \<and>
     opt_hooks (property options ''hooks'')"

section \<open>Effects\<close>

text \<open>
  The generator returns nothing: what it does is the sequence of calls it makes
  to the file system, to the upstream library and to the caller's hooks. A run is
  modelled by its outcome (\<open>Inl\<close> the thrown error, the rejection of the promise)
  and the list of those calls in the order they are made.
\<close>

datatype write_data = BufferData string | Utf8Text string

datatype file_content = Blob string | Text string | Bytes string

datatype hook_call =
    OnStart
  | OnSkipFiles string
  | OnFileWritten string
  | OnHtmlWritten string
  | OnIcoCopied string

record masterIcon =
  icon :: string

datatype imageAdapter = NodeImageAdapter nat

datatype event =
    HookCall hook_call
  | FsAccess string
  | FsMkdir string
  | FsWriteFile string write_data
  | FsCopyFile string string
  | LoadAndConvertToSvg string
  | GetNodeImageAdapter
  | GenerateFaviconFiles masterIcon jsobject imageAdapter
  | GenerateFaviconHtml jsobject

text \<open>
  Everything outside the repository: \<^verbatim>\<open>node:fs/promises\<close>, \<^verbatim>\<open>node:path\<close>,
  \<^verbatim>\<open>process.cwd()\<close> and the two \<^verbatim>\<open>@realfavicongenerator\<close> packages. A file-system
  call answers \<open>None\<close> when its promise resolves and \<open>Some e\<close> when it rejects;
  a library call answers \<open>Inl e\<close> when it fails. \<open>fs_mkdir\<close> is always called with
  \<^verbatim>\<open>{ recursive: true }\<close>. \<open>write_latency\<close> says how long the write to a path
  takes; it fixes the order in which concurrently issued writes complete. An
  answer depends on the arguments of the call only, not on the calls made
  before it.
\<close>

record env =
  process_cwd :: string
  path_join :: "string \<Rightarrow> string \<Rightarrow> string"
  path_dirname :: "string \<Rightarrow> string"
  path_resolve :: "string \<Rightarrow> string \<Rightarrow> string"
  fs_access :: "string \<Rightarrow> error option"
  fs_mkdir :: "string \<Rightarrow> error option"
  fs_writeFile :: "string \<Rightarrow> write_data \<Rightarrow> error option"
  fs_copyFile :: "string \<Rightarrow> string \<Rightarrow> error option"
  write_latency :: "string \<Rightarrow> nat"
  loadAndConvertToSvg :: "string \<Rightarrow> error + string"
  getNodeImageAdapter :: "error + imageAdapter"
  generateFaviconFiles ::
    "masterIcon \<Rightarrow> jsobject \<Rightarrow> imageAdapter \<Rightarrow> error + (string \<times> file_content) list"
  generateFaviconHtml :: "jsobject \<Rightarrow> error + string list"

type_synonym 'a step = "(error + 'a) \<times> event list"

definition ok :: "'a \<Rightarrow> 'a step" where
  "ok x = (Inr x, [])"

definition throw :: "error \<Rightarrow> 'a step" where
  "throw e = (Inl e, [])"

text \<open>Sequencing: a failed step ends the run, and nothing after it is called.\<close>

definition and_then :: "'a step \<Rightarrow> ('a \<Rightarrow> 'b step) \<Rightarrow> 'b step" where
  "and_then m k =
     (case m of
        (Inl e, t) \<Rightarrow> (Inl e, t)
      | (Inr x, t) \<Rightarrow> (case k x of (r, t') \<Rightarrow> (r, t @ t')))"

text \<open>One awaited call: the call is recorded, its answer is the step's result.\<close>

definition call :: "event \<Rightarrow> error + 'a \<Rightarrow> 'a step" where
  "call ev answer = (answer, [ev])"

definition await :: "event \<Rightarrow> error option \<Rightarrow> unit step" where
  "await ev answer = call ev (case answer of None \<Rightarrow> Inr () | Some e \<Rightarrow> Inl e)"

text \<open>
  \<^verbatim>\<open>hooks?.slot?.(arg)\<close>: nothing happens when there is no hook set or the slot is
  empty; otherwise the callback is called, and what it throws is thrown here.
\<close>

fun slot :: "hooks \<Rightarrow> hook_call \<Rightarrow> error option option" where
  "slot h OnStart = map_option (\<lambda>f. f ()) (onStart h)"
| "slot h (OnSkipFiles p) = map_option (\<lambda>f. f p) (onSkipFiles h)"
| "slot h (OnFileWritten p) = map_option (\<lambda>f. f p) (onFileWritten h)"
| "slot h (OnHtmlWritten p) = map_option (\<lambda>f. f p) (onHtmlWritten h)"
| "slot h (OnIcoCopied p) = map_option (\<lambda>f. f p) (onIcoCopied h)"

definition fire :: "jsval \<Rightarrow> hook_call \<Rightarrow> unit step" where
  "fire hs c =
     (case hs of
        Hooks h \<Rightarrow>
          (case slot h c of
             None \<Rightarrow> ok ()
           | Some answer \<Rightarrow> await (HookCall c) answer)
      | _ \<Rightarrow> ok ())"

section \<open>The generator\<close>

text \<open>
  The callback of \<^verbatim>\<open>Object.entries(files).map(async ...)\<close>, lines 153 to 165, in
  its two halves. Up to the call of \<^verbatim>\<open>fs.writeFile\<close> it joins the target path and
  brings the content to a buffer. Once the write has settled it rejects with the
  error of a failed write, or fires \<open>onFileWritten\<close> after a successful one.
\<close>

fun to_buffer :: "file_content \<Rightarrow> string" where
  "to_buffer (Blob b) = b"
| "to_buffer (Text s) = s"
| "to_buffer (Bytes b) = b"

fun is_blob :: "file_content \<Rightarrow> bool" where
  "is_blob (Blob b) = True"
| "is_blob _ = False"

definition issue_write :: "env \<Rightarrow> string \<Rightarrow> string \<times> file_content \<Rightarrow> string \<times> write_data" where
  "issue_write env outputDir entry =
     (let targetPath = path_join env outputDir (fst entry);
          data = BufferData (to_buffer (snd entry))
      in (targetPath, data))"

definition settle_write :: "env \<Rightarrow> jsval \<Rightarrow> string \<times> write_data \<Rightarrow> unit step" where
  "settle_write env hs w =
     (case fs_writeFile env (fst w) (snd w) of
        Some e \<Rightarrow> throw e
      | None \<Rightarrow> fire hs (OnFileWritten (fst w)))"

text \<open>
  \<^verbatim>\<open>Promise.all\<close> over the callbacks. \<^verbatim>\<open>map\<close> starts every callback in entry
  order, and a callback runs up to its first \<^verbatim>\<open>await\<close>: for a string or a byte
  buffer that is the call of \<^verbatim>\<open>fs.writeFile\<close> itself, for a Blob it is
  \<^verbatim>\<open>arrayBuffer()\<close>, so the write of a Blob is issued after the writes of all
  the other entries. Every write is issued whatever happens to the others. The
  writes then settle in the order of their latencies (a stable sort), each
  callback runs its second half when its write settles, and the first rejection
  in that order is the rejection of the whole. The source fixes no order
  between the settling of one write and the issue of another; the model issues
  all of them first.
\<close>

fun first_rejection :: "(error + unit) list \<Rightarrow> error + unit" where
  "first_rejection [] = Inr ()"
| "first_rejection (Inl e # rs) = Inl e"
| "first_rejection (Inr u # rs) = first_rejection rs"

definition promise_all :: "unit step list \<Rightarrow> unit step" where
  "promise_all ps = (first_rejection (map fst ps), concat (map snd ps))"

definition issue_order :: "(string \<times> file_content) list \<Rightarrow> (string \<times> file_content) list" where
  "issue_order files =
     filter (\<lambda>entry. \<not> is_blob (snd entry)) files @ filter (\<lambda>entry. is_blob (snd entry)) files"

definition completion_order :: "env \<Rightarrow> (string \<times> write_data) list \<Rightarrow> (string \<times> write_data) list" where
  "completion_order env writes = sort_key (\<lambda>w. write_latency env (fst w)) writes"

definition persist_files ::
  "env \<Rightarrow> jsval \<Rightarrow> string \<Rightarrow> (string \<times> file_content) list \<Rightarrow> unit step" where
  "persist_files env hs outputDir files =
     (let writes = map (issue_write env outputDir) (issue_order files);
          settled = promise_all (map (settle_write env hs) (completion_order env writes))
      in (fst settled, map (\<lambda>w. FsWriteFile (fst w) (snd w)) writes @ snd settled))"

text \<open>Lines 174 to 186: the optional copy of \<^verbatim>\<open>favicon.ico\<close>.\<close>

definition copy_ico :: "env \<Rightarrow> jsval \<Rightarrow> string \<Rightarrow> jsval \<Rightarrow> jsval \<Rightarrow> unit step" where
  \<open>copy_ico env hs outputDir copyIcoToRoot rootDir =
     (if truthy copyIcoToRoot then
        (if \<not> truthy rootDir then
           throw (Error ''real-favicon: "rootDir" is required when copyIcoToRoot is enabled'')
         else
           (let sourceIco = path_join env outputDir ''favicon.ico'';
                targetIco = path_join env (path_of rootDir) ''favicon.ico''
            in and_then (await (FsCopyFile sourceIco targetIco) (fs_copyFile env sourceIco targetIco))
                 (\<lambda>_. fire hs (OnIcoCopied targetIco))))
      else ok ())\<close>

text \<open>Lines 109 to 187: the body of \<^verbatim>\<open>if (!outputDirExists)\<close>.\<close>

definition files_phase ::
  "env \<Rightarrow> jsval \<Rightarrow> string \<Rightarrow> string \<Rightarrow> jsval \<Rightarrow> jsval \<Rightarrow> jsobject \<Rightarrow> unit step" where
  "files_phase env hs source outputDir copyIcoToRoot rootDir faviconSettings =
     and_then (await (FsMkdir outputDir) (fs_mkdir env outputDir)) (\<lambda>_.
     and_then (call (LoadAndConvertToSvg source) (loadAndConvertToSvg env source)) (\<lambda>svg.
     and_then (call GetNodeImageAdapter (getNodeImageAdapter env)) (\<lambda>imageAdapter.
     and_then (call (GenerateFaviconFiles \<lparr>icon = svg\<rparr> faviconSettings imageAdapter)
                 (generateFaviconFiles env \<lparr>icon = svg\<rparr> faviconSettings imageAdapter)) (\<lambda>files.
     and_then (persist_files env hs outputDir files) (\<lambda>_.
     copy_ico env hs outputDir copyIcoToRoot rootDir)))))"

text \<open>
  Lines 97 to 107: the existence probe. The \<^verbatim>\<open>try\<close> block holds the access call,
  the assignment and the \<open>onSkipFiles\<close> hook; the \<^verbatim>\<open>catch\<close> takes whatever any of
  them throws and sets \<open>outputDirExists\<close> to false.
\<close>

definition probe :: "env \<Rightarrow> jsval \<Rightarrow> jsval \<Rightarrow> string \<Rightarrow> bool step" where
  "probe env hs skipIfExists outputDir =
     (if truthy skipIfExists then
        (case and_then (await (FsAccess outputDir) (fs_access env outputDir))
                (\<lambda>_. fire hs (OnSkipFiles outputDir)) of
           (Inr u, t) \<Rightarrow> (Inr True, t)
         | (Inl e, t) \<Rightarrow> (Inr False, t))
      else ok False)"

text \<open>Lines 204 to 218: the markup, and its optional file.\<close>

definition html_phase :: "env \<Rightarrow> jsval \<Rightarrow> jsval \<Rightarrow> jsobject \<Rightarrow> unit step" where
  "html_phase env hs htmlOutput faviconSettings =
     and_then (call (GenerateFaviconHtml faviconSettings) (generateFaviconHtml env faviconSettings))
       (\<lambda>markups.
          (let html = concat markups in
           if truthy htmlOutput then
             and_then (await (FsMkdir (path_dirname env (path_of htmlOutput)))
                         (fs_mkdir env (path_dirname env (path_of htmlOutput)))) (\<lambda>_.
             and_then (await (FsWriteFile (path_of htmlOutput) (Utf8Text html))
                         (fs_writeFile env (path_of htmlOutput) (Utf8Text html))) (\<lambda>_.
             fire hs (OnHtmlWritten (path_of htmlOutput))))
           else ok ()))"

text \<open>The seven names of the destructuring pattern, lines 66 to 75.\<close>

definition orchestration_fields :: "string list" where
  "orchestration_fields =
     [''source'', ''outputDir'', ''htmlOutput'', ''skipIfExists'', ''copyIcoToRoot'',
      ''rootDir'', ''hooks'']"

text \<open>A destructuring default \<^verbatim>\<open>{ x = d }\<close> applies when the property reads \<^verbatim>\<open>undefined\<close>.\<close>

definition with_default :: "jsval \<Rightarrow> jsval \<Rightarrow> jsval" where
  "with_default d v = (case v of Undefined \<Rightarrow> d | _ \<Rightarrow> v)"

text \<open>Lines 66 to 187: destructuring, validation, \<open>onStart\<close>, the probe, the files.\<close>

definition before_html :: "env \<Rightarrow> jsobject \<Rightarrow> unit step" where
  \<open>before_html env options =
     (let source = property options ''source'';
          outputDir = property options ''outputDir'';
          skipIfExists = with_default (Bool True) (property options ''skipIfExists'');
          copyIcoToRoot = property options ''copyIcoToRoot'';
          rootDir = property options ''rootDir'';
          hs = property options ''hooks'';
          faviconSettings = rest_properties orchestration_fields options
      in if \<not> truthy source then
           throw (Error ''real-favicon: "source" icon path is required'')
         else if \<not> truthy outputDir then
           throw (Error ''real-favicon: "outputDir" is required'')
         else
           and_then (fire hs OnStart) (\<lambda>_.
           and_then (probe env hs skipIfExists (path_of outputDir)) (\<lambda>outputDirExists.
           if \<not> outputDirExists then
             files_phase env hs (path_of source) (path_of outputDir) copyIcoToRoot rootDir
               faviconSettings
           else ok ())))\<close>

text \<open>The whole function: lines 66 to 187, then lines 204 to 218.\<close>

definition generateFavicons :: "env \<Rightarrow> jsobject \<Rightarrow> unit step" where
  "generateFavicons env options =
     and_then (before_html env options) (\<lambda>_.
     html_phase env (property options ''hooks'') (property options ''htmlOutput'')
       (rest_properties orchestration_fields options))"

section \<open>The adapters\<close>

text \<open>
  \<^verbatim>\<open>path.resolve\<close> checks that each segment is a string and throws a
  \<^verbatim>\<open>TypeError\<close> otherwise; on strings it always returns a path.
\<close>

definition resolve_path :: "env \<Rightarrow> string \<Rightarrow> jsval \<Rightarrow> string step" where
  "resolve_path env base v =
     (case v of
        Str s \<Rightarrow> ok (path_resolve env base s)
      | _ \<Rightarrow> throw (TypeError ''ERR_INVALID_ARG_TYPE''))"

text \<open>
  The object literal both adapters pass to the generator (\<^verbatim>\<open>src/adapters/node.ts\<close>
  lines 63 to 83, and the same text in the Vite adapter, lines 87 to 101): the
  spread of \<open>options\<close>, then the four path properties, evaluated in this order.
  A property written after a spread replaces the spread's value in place, or is
  added at the end when the key is new.
\<close>

definition resolved_options :: "env \<Rightarrow> string \<Rightarrow> jsobject \<Rightarrow> jsobject step" where
  "resolved_options env base options =
     and_then (resolve_path env base (property options ''source'')) (\<lambda>source.
     and_then (resolve_path env base (property options ''outputDir'')) (\<lambda>outputDir.
     and_then (if truthy (property options ''rootDir'')
               then and_then (resolve_path env base (property options ''rootDir'')) (\<lambda>p. ok (Str p))
               else ok Undefined) (\<lambda>rootDir.
     and_then (if truthy (property options ''htmlOutput'')
               then and_then (resolve_path env base (property options ''htmlOutput'')) (\<lambda>p. ok (Str p))
               else ok Undefined) (\<lambda>htmlOutput.
     ok (AList.update ''htmlOutput'' htmlOutput
          (AList.update ''rootDir'' rootDir
            (AList.update ''outputDir'' (Str outputDir)
              (AList.update ''source'' (Str source) options))))))))"

definition generateFaviconsNode :: "env \<Rightarrow> jsobject \<Rightarrow> unit step" where
  "generateFaviconsNode env options =
     (let cwd = process_cwd env
      in and_then (resolved_options env cwd options) (generateFavicons env))"

record plugin =
  name :: string
  buildStart :: "env \<Rightarrow> unit step"

definition realFavicon :: "jsobject \<Rightarrow> plugin" where
  "realFavicon options =
     \<lparr>name = ''real-favicon'',
      buildStart = (\<lambda>env.
        let root = process_cwd env
        in and_then (resolved_options env root options) (generateFavicons env))\<rparr>"

section \<open>Vocabulary of the properties\<close>

text \<open>A required option that is missing: the property is absent or the empty string.\<close>

definition absent_or_empty :: "jsval \<Rightarrow> bool" where
  "absent_or_empty v \<longleftrightarrow> v = Undefined \<or> v = Str []"

text \<open>Whether a hook slot is filled, and what its callback throws at a given call.\<close>

definition hook_present :: "jsval \<Rightarrow> hook_call \<Rightarrow> bool" where
  "hook_present hs c = (case hs of Hooks h \<Rightarrow> slot h c \<noteq> None | _ \<Rightarrow> False)"

definition hook_error :: "jsval \<Rightarrow> hook_call \<Rightarrow> error option" where
  "hook_error hs c =
     (case hs of
        Hooks h \<Rightarrow> (case slot h c of Some (Some e) \<Rightarrow> Some e | _ \<Rightarrow> None)
      | _ \<Rightarrow> None)"

text \<open>
  The calls by kind. A favicon file is written from a buffer, the markup as
  UTF-8 text, so the two kinds of write are told apart by their data.
\<close>

fun is_favicon_write :: "event \<Rightarrow> bool" where
  "is_favicon_write (FsWriteFile p (BufferData d)) = True"
| "is_favicon_write _ = False"

definition favicon_writes :: "event list \<Rightarrow> event list" where
  "favicon_writes t = filter is_favicon_write t"

fun persist_event :: "event \<Rightarrow> bool" where
  "persist_event (FsWriteFile p (BufferData d)) = True"
| "persist_event (HookCall (OnFileWritten p)) = True"
| "persist_event _ = False"

fun copy_event :: "event \<Rightarrow> bool" where
  "copy_event (FsCopyFile a b) = True"
| "copy_event (HookCall (OnIcoCopied p)) = True"
| "copy_event _ = False"

fun probe_event :: "event \<Rightarrow> bool" where
  "probe_event (FsAccess p) = True"
| "probe_event (HookCall (OnSkipFiles p)) = True"
| "probe_event _ = False"

fun html_event :: "event \<Rightarrow> bool" where
  "html_event (GenerateFaviconHtml s) = True"
| "html_event (FsMkdir p) = True"
| "html_event (FsWriteFile p (Utf8Text d)) = True"
| "html_event (HookCall (OnHtmlWritten p)) = True"
| "html_event _ = False"

fun files_event :: "event \<Rightarrow> bool" where
  "files_event (FsMkdir p) = True"
| "files_event (LoadAndConvertToSvg p) = True"
| "files_event GetNodeImageAdapter = True"
| "files_event (GenerateFaviconFiles m s a) = True"
| "files_event ev = (persist_event ev \<or> copy_event ev)"

text \<open>The last two steps of the files phase, lines 152 to 186.\<close>

definition persist_and_copy ::
  "env \<Rightarrow> jsval \<Rightarrow> string \<Rightarrow> jsval \<Rightarrow> jsval \<Rightarrow> (string \<times> file_content) list \<Rightarrow> unit step" where
  "persist_and_copy env hs outputDir copyIcoToRoot rootDir files =
     and_then (persist_files env hs outputDir files) (\<lambda>_.
     copy_ico env hs outputDir copyIcoToRoot rootDir)"


section \<open>The adapters, as the specification words them\<close>

text \<open>
  The specification of the adapters: source and outputDir are resolved against
  the base directory, rootDir and htmlOutput are resolved when they are provided,
  every other property is left as it is, and the generator is called on the
  result. A path is provided when it is a non-empty string, which is how both the
  adapters and the generator test it.
\<close>

definition provided :: "jsval \<Rightarrow> bool" where
  "provided v \<longleftrightarrow> (case v of Str s \<Rightarrow> s \<noteq> [] | _ \<Rightarrow> False)"

definition resolve_property :: "env \<Rightarrow> string \<Rightarrow> string \<Rightarrow> jsobject \<Rightarrow> jsobject" where
  "resolve_property env base k options =
     AList.update k (Str (path_resolve env base (path_of (property options k)))) options"

definition spec_adapter_options :: "env \<Rightarrow> string \<Rightarrow> jsobject \<Rightarrow> jsobject" where
  "spec_adapter_options env base options =
     (let o1 = resolve_property env base ''source'' options;
          o2 = resolve_property env base ''outputDir'' o1;
          o3 = (if provided (property options ''rootDir'')
                then resolve_property env base ''rootDir'' o2 else o2);
          o4 = (if provided (property options ''htmlOutput'')
                then resolve_property env base ''htmlOutput'' o3 else o3)
      in o4)"

definition spec_adapter :: "env \<Rightarrow> jsobject \<Rightarrow> unit step" where
  "spec_adapter env options =
     generateFavicons env (spec_adapter_options env (process_cwd env) options)"

section \<open>Sample requests\<close>

text \<open>
  A small world: the directory \<open>out\<close> exists and no other does, every call
  succeeds, the upstream library returns two files and two markup fragments.
\<close>

definition sample_files :: "(string \<times> file_content) list" where
  "sample_files = [(''favicon.ico'', Bytes ''ico''), (''site.webmanifest'', Text ''{}'')]"

definition sample_env :: env where
  "sample_env =
     \<lparr>process_cwd = ''/work'',
      path_join = (\<lambda>a b. a @ ''/'' @ b),
      path_dirname = (\<lambda>p. ''gen''),
      path_resolve = (\<lambda>base p. if p = [] then base else base @ ''/'' @ p),
      fs_access = (\<lambda>p. if p = ''out'' then None else Some (Error ''ENOENT'')),
      fs_mkdir = (\<lambda>p. None),
      fs_writeFile = (\<lambda>p d. None),
      fs_copyFile = (\<lambda>a b. None),
      write_latency = (\<lambda>p. if p = ''fresh/favicon.ico'' then 2 else 1),
      loadAndConvertToSvg = (\<lambda>p. Inr ''<svg/>''),
      getNodeImageAdapter = Inr (NodeImageAdapter 0),
      generateFaviconFiles = (\<lambda>m s a. Inr sample_files),
      generateFaviconHtml = (\<lambda>s. Inr [''<link rel=icon>'', ''<meta>''])\<rparr>"

definition sample_hooks :: hooks where
  "sample_hooks =
     \<lparr>onStart = Some (\<lambda>u. None),
      onSkipFiles = Some (\<lambda>p. None),
      onFileWritten = Some (\<lambda>p. None),
      onHtmlWritten = Some (\<lambda>p. None),
      onIcoCopied = Some (\<lambda>p. None)\<rparr>"

definition sample_options :: "string \<Rightarrow> hooks \<Rightarrow> jsobject" where
  "sample_options dir h =
     [(''source'', Str ''logo.png''), (''outputDir'', Str dir), (''path'', Str ''/favicons/''),
      (''htmlOutput'', Str ''gen/favicons.html''), (''hooks'', Hooks h)]"

text \<open>The same world with a source image that cannot be read, and with a failing generator.\<close>

definition env_bad_image :: env where
  "env_bad_image = sample_env\<lparr>loadAndConvertToSvg := (\<lambda>p. Inl (Error ''unsupported image''))\<rparr>"

definition env_bad_generate :: env where
  "env_bad_generate =
     sample_env\<lparr>generateFaviconFiles := (\<lambda>m s a. Inl (Error ''cannot generate''))\<rparr>"

text \<open>Requests that ask for the copy of \<^verbatim>\<open>favicon.ico\<close>, without and with a root directory.\<close>

definition copy_without_root :: "string \<Rightarrow> jsobject" where
  "copy_without_root dir = sample_options dir sample_hooks @ [(''copyIcoToRoot'', Bool True)]"

definition copy_with_root :: "string \<Rightarrow> jsobject" where
  "copy_with_root dir =
     sample_options dir sample_hooks @ [(''copyIcoToRoot'', Bool True), (''rootDir'', Str ''public'')]"

text \<open>Hook sets with one callback that throws.\<close>

definition skip_hook_throws :: hooks where
  "skip_hook_throws = sample_hooks\<lparr>onSkipFiles := Some (\<lambda>p. Some (Error ''hook failed''))\<rparr>"

definition only_skip_hook :: hooks where
  "only_skip_hook =
     \<lparr>onStart = None, onSkipFiles = Some (\<lambda>p. Some (Error ''hook failed'')),
      onFileWritten = None, onHtmlWritten = None, onIcoCopied = None\<rparr>"




section \<open>Sequencing, hooks and the phases\<close>

subsection \<open>Sequencing\<close>

lemma and_then_Inl [simp]: "and_then (Inl e, t) k = (Inl e, t)"
  by (simp add: and_then_def)

lemma and_then_Inr [simp]: "and_then (Inr x, t) k = (fst (k x), t @ snd (k x))"
  by (simp add: and_then_def split: prod.splits)

lemma and_then_ok [simp]: "and_then (ok x) k = k x"
  by (simp add: ok_def)

lemma and_then_throw [simp]: "and_then (throw e) k = throw e"
  by (simp add: throw_def)

lemma and_then_assoc: "and_then (and_then m k) k' = and_then m (\<lambda>x. and_then (k x) k')"
  by (cases m; cases "fst m") (auto simp: and_then_def split: prod.splits sum.splits)

lemma and_then_events: "set (snd (and_then m k)) \<subseteq> set (snd m) \<union> (\<Union>x. set (snd (k x)))"
proof (cases m)
  case (Pair r t)
  show ?thesis
  proof (cases r)
    case (Inl e)
    with Pair show ?thesis by simp
  next
    case (Inr x)
    with Pair have "snd (and_then m k) = t @ snd (k x)" by simp
    then show ?thesis using Pair by auto
  qed
qed

lemma await_simps [simp]:
  "await ev None = (Inr (), [ev])"
  "await ev (Some e) = (Inl e, [ev])"
  by (simp_all add: await_def call_def)

lemma and_then_call:
  "and_then (call ev answer) k =
     (case answer of Inl e \<Rightarrow> (Inl e, [ev]) | Inr x \<Rightarrow> (fst (k x), ev # snd (k x)))"
  by (simp add: call_def split: sum.splits)

lemma and_then_await:
  "and_then (await ev answer) k =
     (case answer of Some e \<Rightarrow> (Inl e, [ev]) | None \<Rightarrow> (fst (k ()), ev # snd (k ())))"
  by (simp split: option.splits)

subsection \<open>Objects\<close>

text \<open>Reading a property after an update, and the rest of a destructuring.\<close>

lemma property_update:
  "property (AList.update k v obj) k' = (if k' = k then v else property obj k')"
  by (simp add: property_def update_conv')

lemma rest_properties_update:
  "k \<in> set taken \<Longrightarrow> rest_properties taken (AList.update k v obj) = rest_properties taken obj"
  by (induction obj) (auto simp: rest_properties_def)

lemma map_of_filter_keys:
  "map_of (filter (\<lambda>kv. fst kv \<notin> K) xs) k = (if k \<in> K then None else map_of xs k)"
  by (induction xs) auto

lemma property_rest:
  "property (rest_properties taken obj) k = (if k \<in> set taken then Undefined else property obj k)"
  by (simp add: rest_properties_def property_def map_of_filter_keys)

lemma rest_orchestration_fields:
  "rest_properties orchestration_fields options =
     filter (\<lambda>kv. fst kv \<notin> {''source'', ''outputDir'', ''htmlOutput'', ''skipIfExists'',
                              ''copyIcoToRoot'', ''rootDir'', ''hooks''}) options"
  by (simp add: rest_properties_def orchestration_fields_def)

lemma property_rest_orchestration:
  "property (rest_properties orchestration_fields options) k =
     (if k \<in> {''source'', ''outputDir'', ''htmlOutput'', ''skipIfExists'',
              ''copyIcoToRoot'', ''rootDir'', ''hooks''}
      then Undefined else property options k)"
  unfolding property_rest by (simp add: orchestration_fields_def)

lemma truthy_string: "opt_string v \<Longrightarrow> truthy v \<longleftrightarrow> provided v"
  by (cases v) (auto simp: provided_def)

lemma provided_Undefined [simp]: "\<not> provided Undefined"
  by (simp add: provided_def)

lemma provided_string: "provided v \<Longrightarrow> v = Str (path_of v)"
  by (cases v) (auto simp: provided_def)

subsection \<open>Hooks\<close>

lemma fire_cases:
  "fire hs c = (Inr (), []) \<and> \<not> hook_present hs c \<and> hook_error hs c = None
   \<or> fire hs c = (Inr (), [HookCall c]) \<and> hook_present hs c \<and> hook_error hs c = None
   \<or> (\<exists>e. fire hs c = (Inl e, [HookCall c]) \<and> hook_present hs c \<and> hook_error hs c = Some e)"
  by (auto simp: fire_def ok_def hook_present_def hook_error_def split: jsval.splits option.splits)

lemma hook_error_present: "hook_error hs c = Some e \<Longrightarrow> hook_present hs c"
  by (auto simp: hook_present_def hook_error_def split: jsval.splits option.splits)

lemma fire_trace: "snd (fire hs c) = (if hook_present hs c then [HookCall c] else [])"
  using fire_cases [of hs c] by auto

lemma fire_result: "fst (fire hs c) = (case hook_error hs c of None \<Rightarrow> Inr () | Some e \<Rightarrow> Inl e)"
  using fire_cases [of hs c] by auto

lemma fire_eq: "fire hs c = (case hook_error hs c of None \<Rightarrow> Inr () | Some e \<Rightarrow> Inl e,
                            if hook_present hs c then [HookCall c] else [])"
  by (simp add: prod_eq_iff fire_trace fire_result)

lemma fire_event_iff: "ev \<in> set (snd (fire hs c)) \<longleftrightarrow> ev = HookCall c \<and> hook_present hs c"
  by (simp add: fire_trace)

subsection \<open>The phases, case by case\<close>

text \<open>Each phase stops at its first failure; the lemmas list the runs it can have.\<close>

lemma settle_write_events: "ev \<in> set (snd (settle_write env hs w)) \<Longrightarrow> persist_event ev"
  by (auto simp: settle_write_def throw_def fire_eq split: option.splits if_splits)

lemma persist_files_events: "ev \<in> set (snd (persist_files env hs p files)) \<Longrightarrow> persist_event ev"
  by (auto simp: persist_files_def Let_def promise_all_def issue_write_def
      dest: settle_write_events)

lemma probe_cases:
  "probe env hs s p = (Inr False, []) \<and> \<not> truthy s
   \<or> probe env hs s p = (Inr False, [FsAccess p]) \<and> truthy s \<and> fs_access env p \<noteq> None
   \<or> probe env hs s p = (Inr True, FsAccess p # snd (fire hs (OnSkipFiles p))) \<and> truthy s
        \<and> fs_access env p = None \<and> hook_error hs (OnSkipFiles p) = None
   \<or> probe env hs s p = (Inr False, [FsAccess p, HookCall (OnSkipFiles p)]) \<and> truthy s
        \<and> fs_access env p = None \<and> hook_error hs (OnSkipFiles p) \<noteq> None"
  by (auto simp: probe_def and_then_await fire_eq ok_def dest: hook_error_present
      split: option.splits)

lemma probe_total: "\<exists>b t. probe env hs s p = (Inr b, t)"
  using probe_cases [of env hs s p] by auto

lemma probe_events: "ev \<in> set (snd (probe env hs s p)) \<Longrightarrow> probe_event ev"
  using probe_cases [of env hs s p] by (auto simp: fire_trace split: if_splits)

lemma copy_ico_events: "ev \<in> set (snd (copy_ico env hs p c r)) \<Longrightarrow> copy_event ev"
  by (auto simp: copy_ico_def Let_def and_then_await fire_eq throw_def ok_def
      split: option.splits if_splits)

lemma html_phase_events: "ev \<in> set (snd (html_phase env hs h s)) \<Longrightarrow> html_event ev"
  by (auto simp: html_phase_def Let_def and_then_call and_then_await fire_eq ok_def
      split: option.splits sum.splits if_splits)

lemma files_phase_cases:
  "(\<exists>e. fs_mkdir env p = Some e \<and> files_phase env hs src p c r s = (Inl e, [FsMkdir p]))
   \<or> (\<exists>e. fs_mkdir env p = None \<and> loadAndConvertToSvg env src = Inl e
         \<and> files_phase env hs src p c r s = (Inl e, [FsMkdir p, LoadAndConvertToSvg src]))
   \<or> (\<exists>e svg. fs_mkdir env p = None \<and> loadAndConvertToSvg env src = Inr svg
         \<and> getNodeImageAdapter env = Inl e
         \<and> files_phase env hs src p c r s =
             (Inl e, [FsMkdir p, LoadAndConvertToSvg src, GetNodeImageAdapter]))
   \<or> (\<exists>e svg a. fs_mkdir env p = None \<and> loadAndConvertToSvg env src = Inr svg
         \<and> getNodeImageAdapter env = Inr a
         \<and> generateFaviconFiles env \<lparr>icon = svg\<rparr> s a = Inl e
         \<and> files_phase env hs src p c r s =
             (Inl e, [FsMkdir p, LoadAndConvertToSvg src, GetNodeImageAdapter,
                      GenerateFaviconFiles \<lparr>icon = svg\<rparr> s a]))
   \<or> (\<exists>svg a files. fs_mkdir env p = None \<and> loadAndConvertToSvg env src = Inr svg
         \<and> getNodeImageAdapter env = Inr a
         \<and> generateFaviconFiles env \<lparr>icon = svg\<rparr> s a = Inr files
         \<and> files_phase env hs src p c r s =
             (fst (persist_and_copy env hs p c r files),
              [FsMkdir p, LoadAndConvertToSvg src, GetNodeImageAdapter,
               GenerateFaviconFiles \<lparr>icon = svg\<rparr> s a]
              @ snd (persist_and_copy env hs p c r files)))"
  by (cases "fs_mkdir env p"; cases "loadAndConvertToSvg env src"; cases "getNodeImageAdapter env")
     (auto simp: files_phase_def persist_and_copy_def and_then_call split: sum.splits)

lemma persist_and_copy_events:
  "ev \<in> set (snd (persist_and_copy env hs p c r files)) \<Longrightarrow> persist_event ev \<or> copy_event ev"
  using and_then_events [of "persist_files env hs p files" "\<lambda>_. copy_ico env hs p c r"]
  by (auto simp: persist_and_copy_def dest: persist_files_events copy_ico_events)

lemma persist_and_copy_eq:
  "persist_and_copy env hs p c r files =
     (case fst (persist_files env hs p files) of
        Inl e \<Rightarrow> (Inl e, snd (persist_files env hs p files))
      | Inr u \<Rightarrow> (fst (copy_ico env hs p c r),
                  snd (persist_files env hs p files) @ snd (copy_ico env hs p c r)))"
  by (cases "persist_files env hs p files"; cases "fst (persist_files env hs p files)")
     (auto simp: persist_and_copy_def)

lemma copy_ico_without_root:
  \<open>truthy c \<Longrightarrow> \<not> truthy r \<Longrightarrow>
   copy_ico env hs p c r =
     (Inl (Error ''real-favicon: "rootDir" is required when copyIcoToRoot is enabled''), [])\<close>
  by (simp add: copy_ico_def throw_def)

lemma files_phase_starts_with_mkdir:
  "\<exists>rest. snd (files_phase env hs src p c r s) = FsMkdir p # rest"
  using files_phase_cases [where env = env and p = p and hs = hs and src = src
      and c = c and r = r and s = s]
  by auto

lemma html_phase_starts_with_generate:
  "\<exists>rest. snd (html_phase env hs h s) = GenerateFaviconHtml s # rest"
  by (auto simp: html_phase_def and_then_call split: sum.splits)

lemma before_html_invalid:
  "\<not> (truthy (property options ''source'') \<and> truthy (property options ''outputDir'')) \<Longrightarrow>
   snd (before_html env options) = [] \<and> (\<exists>e. fst (before_html env options) = Inl e)"
  by (auto simp: before_html_def Let_def throw_def)

lemma generateFavicons_invalid:
  "\<not> (truthy (property options ''source'') \<and> truthy (property options ''outputDir'')) \<Longrightarrow>
   snd (generateFavicons env options) = []"
  using before_html_invalid [of options env]
  by (cases "before_html env options") (auto simp: generateFavicons_def)

lemma generateFavicons_event_valid:
  "ev \<in> set (snd (generateFavicons env options)) \<Longrightarrow>
   truthy (property options ''source'') \<and> truthy (property options ''outputDir'')"
  using generateFavicons_invalid [of options env] by force

lemma generateFavicons_cases:
  fixes env :: env and options :: jsobject
  assumes "truthy (property options ''source'')" "truthy (property options ''outputDir'')"
  defines "hs \<equiv> property options ''hooks''"
    and "p \<equiv> path_of (property options ''outputDir'')"
  defines "P \<equiv> probe env hs (with_default (Bool True) (property options ''skipIfExists'')) p"
    and "F \<equiv> files_phase env hs (path_of (property options ''source'')) p
               (property options ''copyIcoToRoot'') (property options ''rootDir'')
               (rest_properties orchestration_fields options)"
    and "H \<equiv> html_phase env hs (property options ''htmlOutput'')
               (rest_properties orchestration_fields options)"
  shows "generateFavicons env options =
     (case hook_error hs OnStart of
        Some e \<Rightarrow> (Inl e, [HookCall OnStart])
      | None \<Rightarrow>
         (if fst P = Inr True then (fst H, snd (fire hs OnStart) @ snd P @ snd H)
          else (case fst F of
                  Inl e \<Rightarrow> (Inl e, snd (fire hs OnStart) @ snd P @ snd F)
                | Inr u \<Rightarrow> (fst H, snd (fire hs OnStart) @ snd P @ snd F @ snd H))))"
proof -
  obtain b tp where P: "P = (Inr b, tp)"
    using probe_total unfolding P_def by blast
  obtain rf tf where F: "F = (rf, tf)" by (cases F)
  have "generateFavicons env options =
      and_then (fire hs OnStart) (\<lambda>_. and_then P (\<lambda>b. and_then (if \<not> b then F else ok ()) (\<lambda>_. H)))"
    unfolding generateFavicons_def before_html_def Let_def hs_def p_def P_def F_def H_def
    using assms(1,2) by (simp add: and_then_assoc)
  then show ?thesis
    using fire_cases [of hs OnStart] P F
    by (cases rf) (auto simp: fire_trace)
qed

subsection \<open>Which phase a call belongs to\<close>

text \<open>The kinds of call are disjoint, so a call found in the trace of a run places the run.\<close>

lemma favicon_writes_empty: "favicon_writes t = [] \<longleftrightarrow> (\<forall>ev\<in>set t. \<not> is_favicon_write ev)"
  by (simp add: favicon_writes_def filter_empty_conv)

lemma not_in_phase:
  "\<not> probe_event ev \<Longrightarrow> ev \<in> set (snd (probe env hs s p)) \<longleftrightarrow> False"
  "\<not> html_event ev \<Longrightarrow> ev \<in> set (snd (html_phase env hs h st)) \<longleftrightarrow> False"
  "\<not> persist_event ev \<Longrightarrow> \<not> copy_event ev \<Longrightarrow>
     ev \<in> set (snd (persist_and_copy env hs p c r files)) \<longleftrightarrow> False"
  using probe_events html_phase_events persist_and_copy_events by blast+

lemma favicon_write_kind:
  "is_favicon_write ev \<Longrightarrow> \<not> probe_event ev \<and> \<not> html_event ev \<and> \<not> copy_event ev \<and> persist_event ev"
  by (cases ev rule: is_favicon_write.cases) auto

lemma copy_event_kind:
  "copy_event ev \<Longrightarrow> \<not> probe_event ev \<and> \<not> html_event ev \<and> \<not> persist_event ev
     \<and> ev \<noteq> HookCall OnStart \<and> files_event ev"
  by (cases ev rule: copy_event.cases) auto

lemma favicon_writes_append [simp]: "favicon_writes (t @ u) = favicon_writes t @ favicon_writes u"
  by (simp add: favicon_writes_def)

lemma favicon_writes_simps [simp]:
  "favicon_writes [] = []"
  "favicon_writes (ev # t) = (if is_favicon_write ev then ev # favicon_writes t else favicon_writes t)"
  by (simp_all add: favicon_writes_def)

lemma favicon_writes_phase [simp]:
  "favicon_writes (snd (fire hs c)) = []"
  "favicon_writes (snd (probe env hs s p)) = []"
  "favicon_writes (snd (html_phase env hs h st)) = []"
  using probe_events html_phase_events
  by (auto simp: favicon_writes_empty fire_event_iff dest: favicon_write_kind)

lemma files_phase_collaborator_failed:
  assumes "LoadAndConvertToSvg src' \<in> set (snd (files_phase env hs src p c r s))
             \<and> loadAndConvertToSvg env src' = Inl e
         \<or> GenerateFaviconFiles m s' a \<in> set (snd (files_phase env hs src p c r s))
             \<and> generateFaviconFiles env m s' a = Inl e"
  shows "fst (files_phase env hs src p c r s) = Inl e
         \<and> favicon_writes (snd (files_phase env hs src p c r s)) = []"
  using assms files_phase_cases [where env = env and p = p and hs = hs and src = src
      and c = c and r = r and s = s]
  by (auto simp: not_in_phase)

lemma files_phase_written:
  assumes "ev \<in> set (snd (files_phase env hs src p c r s))" and "is_favicon_write ev"
  shows "\<exists>svg a files post.
           snd (files_phase env hs src p c r s) =
             [FsMkdir p, LoadAndConvertToSvg src, GetNodeImageAdapter,
              GenerateFaviconFiles \<lparr>icon = svg\<rparr> s a] @ post
           \<and> loadAndConvertToSvg env src = Inr svg \<and> getNodeImageAdapter env = Inr a
           \<and> generateFaviconFiles env \<lparr>icon = svg\<rparr> s a = Inr files"
  using assms files_phase_cases [where env = env and p = p and hs = hs and src = src
      and c = c and r = r and s = s]
  by auto

lemma files_phase_settings:
  "GenerateFaviconFiles m s' a \<in> set (snd (files_phase env hs src p c r s)) \<Longrightarrow> s' = s"
  using files_phase_cases [where env = env and p = p and hs = hs and src = src
      and c = c and r = r and s = s]
  by (auto simp: not_in_phase)

lemma html_phase_settings:
  "GenerateFaviconHtml s' \<in> set (snd (html_phase env hs h s)) \<Longrightarrow> s' = s"
  by (auto simp: html_phase_def Let_def and_then_call and_then_await fire_eq ok_def
      split: option.splits sum.splits if_splits)

lemma files_event_only_in_files_phase:
  fixes env :: env and options :: jsobject
  defines "F \<equiv> files_phase env (property options ''hooks'') (path_of (property options ''source''))
               (path_of (property options ''outputDir'')) (property options ''copyIcoToRoot'')
               (property options ''rootDir'') (rest_properties orchestration_fields options)"
  assumes "ev \<in> set (snd (generateFavicons env options))"
    and "\<not> probe_event ev" "\<not> html_event ev" "ev \<noteq> HookCall OnStart"
  shows "\<exists>pre post. snd (generateFavicons env options) = pre @ snd F @ post \<and> ev \<in> set (snd F)
           \<and> favicon_writes pre = [] \<and> favicon_writes post = []
           \<and> (fst (generateFavicons env options) = fst F \<or> fst F = Inr ())"
proof -
  have valid: "truthy (property options ''source'')" "truthy (property options ''outputDir'')"
    using assms(2) generateFavicons_event_valid by blast+
  note g = generateFavicons_cases [OF valid, of env]
  let ?t0 = "snd (fire (property options ''hooks'') OnStart)"
  let ?P = "probe env (property options ''hooks'')
              (with_default (Bool True) (property options ''skipIfExists''))
              (path_of (property options ''outputDir''))"
  let ?H = "html_phase env (property options ''hooks'') (property options ''htmlOutput'')
              (rest_properties orchestration_fields options)"
  have shape: "snd (generateFavicons env options) = ?t0 @ snd ?P @ snd F @ []
               \<and> fst (generateFavicons env options) = fst F
             \<or> snd (generateFavicons env options) = ?t0 @ snd ?P @ snd F @ snd ?H \<and> fst F = Inr ()"
    and inF: "ev \<in> set (snd F)"
    using assms(2-) unfolding g F_def
    by (auto simp: fire_event_iff not_in_phase split: option.splits if_splits sum.splits)
  from shape show ?thesis
  proof
    assume "snd (generateFavicons env options) = ?t0 @ snd ?P @ snd F @ []
               \<and> fst (generateFavicons env options) = fst F"
    then show ?thesis using inF
      by (intro exI [of _ "?t0 @ snd ?P"] exI [of _ "[]"]) simp
  next
    assume "snd (generateFavicons env options) = ?t0 @ snd ?P @ snd F @ snd ?H \<and> fst F = Inr ()"
    then show ?thesis using inF
      by (intro exI [of _ "?t0 @ snd ?P"] exI [of _ "snd ?H"]) simp
  qed
qed

lemma files_phase_events: "ev \<in> set (snd (files_phase env hs src p c r s)) \<Longrightarrow> files_event ev"
  using files_phase_cases [where env = env and p = p and hs = hs and src = src
      and c = c and r = r and s = s] persist_and_copy_events [of ev env hs p c r]
  by (cases ev rule: files_event.cases) auto

lemma html_or_files_settings:
  assumes "ev \<in> set (snd (generateFavicons env options))"
    and "ev = GenerateFaviconFiles m s a \<or> ev = GenerateFaviconHtml s"
  shows "s = rest_properties orchestration_fields options"
proof -
  have valid: "truthy (property options ''source'')" "truthy (property options ''outputDir'')"
    using assms(1) generateFavicons_event_valid by blast+
  show ?thesis
    using assms unfolding generateFavicons_cases [OF valid, of env]
    by (auto simp: fire_event_iff not_in_phase
        dest: files_phase_settings html_phase_settings files_phase_events
        split: option.splits if_splits sum.splits)
qed

subsection \<open>Hooks that throw\<close>









subsection \<open>Requests the generator cannot tell apart\<close>

text \<open>The generator reads rootDir and htmlOutput only through their truthiness and, when truthy, their value.\<close>

lemma generateFavicons_cong:
  assumes same: "property a ''source'' = property b ''source''"
      "property a ''outputDir'' = property b ''outputDir''"
      "property a ''skipIfExists'' = property b ''skipIfExists''"
      "property a ''copyIcoToRoot'' = property b ''copyIcoToRoot''"
      "property a ''hooks'' = property b ''hooks''"
      "rest_properties orchestration_fields a = rest_properties orchestration_fields b"
    and root: "property a ''rootDir'' = property b ''rootDir''
               \<or> \<not> truthy (property a ''rootDir'') \<and> \<not> truthy (property b ''rootDir'')"
    and html: "property a ''htmlOutput'' = property b ''htmlOutput''
               \<or> \<not> truthy (property a ''htmlOutput'') \<and> \<not> truthy (property b ''htmlOutput'')"
  shows "generateFavicons env a = generateFavicons env b"
proof -
  have copy: "copy_ico env hs p c (property a ''rootDir'') = copy_ico env hs p c (property b ''rootDir'')"
    for hs p c
    using root by (elim disjE) (simp_all add: copy_ico_def Let_def cong: if_cong)
  have files: "files_phase env hs src p c (property a ''rootDir'') s
             = files_phase env hs src p c (property b ''rootDir'') s" for hs src p c s
    unfolding files_phase_def copy ..
  have markup: "html_phase env hs (property a ''htmlOutput'') s
              = html_phase env hs (property b ''htmlOutput'') s" for hs s
    using html by (elim disjE) (simp_all add: html_phase_def Let_def cong: if_cong)
  show ?thesis
    unfolding generateFavicons_def before_html_def Let_def same files markup ..
qed

subsection \<open>Sample runs\<close>

text \<open>The sample requests, evaluated.\<close>

lemmas run_defs = generateFavicons_def before_html_def html_phase_def probe_def files_phase_def
  copy_ico_def persist_files_def completion_order_def issue_order_def promise_all_def
  issue_write_def settle_write_def fire_def
  await_def call_def and_then_def ok_def throw_def property_def rest_properties_def
  orchestration_fields_def with_default_def Let_def

lemmas sample_defs = sample_env_def sample_hooks_def sample_options_def sample_files_def

lemma run_fresh:
  "generateFavicons sample_env (sample_options ''fresh'' sample_hooks) =
     (Inr (),
      [HookCall OnStart, FsAccess ''fresh'', FsMkdir ''fresh'', LoadAndConvertToSvg ''logo.png'',
       GetNodeImageAdapter,
       GenerateFaviconFiles \<lparr>icon = ''<svg/>''\<rparr> [(''path'', Str ''/favicons/'')] (NodeImageAdapter 0),
       FsWriteFile ''fresh/favicon.ico'' (BufferData ''ico''),
       FsWriteFile ''fresh/site.webmanifest'' (BufferData ''{}''),
       HookCall (OnFileWritten ''fresh/site.webmanifest''),
       HookCall (OnFileWritten ''fresh/favicon.ico''),
       GenerateFaviconHtml [(''path'', Str ''/favicons/'')], FsMkdir ''gen'',
       FsWriteFile ''gen/favicons.html'' (Utf8Text ''<link rel=icon><meta>''),
       HookCall (OnHtmlWritten ''gen/favicons.html'')])"
  by (simp add: run_defs sample_defs)

lemma run_existing:
  "generateFavicons sample_env (sample_options ''out'' sample_hooks) =
     (Inr (),
      [HookCall OnStart, FsAccess ''out'', HookCall (OnSkipFiles ''out''),
       GenerateFaviconHtml [(''path'', Str ''/favicons/'')], FsMkdir ''gen'',
       FsWriteFile ''gen/favicons.html'' (Utf8Text ''<link rel=icon><meta>''),
       HookCall (OnHtmlWritten ''gen/favicons.html'')])"
  by (simp add: run_defs sample_defs)

lemma before_html_existing:
  "before_html sample_env (sample_options ''out'' sample_hooks) =
     (Inr (), [HookCall OnStart, FsAccess ''out'', HookCall (OnSkipFiles ''out'')])"
  by (simp add: run_defs sample_defs)

lemma run_bad_image:
  "generateFavicons env_bad_image (sample_options ''fresh'' sample_hooks) =
     (Inl (Error ''unsupported image''),
      [HookCall OnStart, FsAccess ''fresh'', FsMkdir ''fresh'', LoadAndConvertToSvg ''logo.png''])"
  by (simp add: run_defs sample_defs env_bad_image_def)

lemma run_bad_generate:
  "generateFavicons env_bad_generate (sample_options ''fresh'' sample_hooks) =
     (Inl (Error ''cannot generate''),
      [HookCall OnStart, FsAccess ''fresh'', FsMkdir ''fresh'', LoadAndConvertToSvg ''logo.png'',
       GetNodeImageAdapter,
       GenerateFaviconFiles \<lparr>icon = ''<svg/>''\<rparr> [(''path'', Str ''/favicons/'')] (NodeImageAdapter 0)])"
  by (simp add: run_defs sample_defs env_bad_generate_def)

lemma run_copy_existing:
  "generateFavicons sample_env (copy_with_root ''out'') =
     (Inr (),
      [HookCall OnStart, FsAccess ''out'', HookCall (OnSkipFiles ''out''),
       GenerateFaviconHtml [(''path'', Str ''/favicons/'')], FsMkdir ''gen'',
       FsWriteFile ''gen/favicons.html'' (Utf8Text ''<link rel=icon><meta>''),
       HookCall (OnHtmlWritten ''gen/favicons.html'')])"
  by (simp add: run_defs sample_defs copy_with_root_def)

lemma run_copy_fresh:
  "generateFavicons sample_env (copy_with_root ''fresh'') =
     (Inr (),
      [HookCall OnStart, FsAccess ''fresh'', FsMkdir ''fresh'', LoadAndConvertToSvg ''logo.png'',
       GetNodeImageAdapter,
       GenerateFaviconFiles \<lparr>icon = ''<svg/>''\<rparr> [(''path'', Str ''/favicons/'')] (NodeImageAdapter 0),
       FsWriteFile ''fresh/favicon.ico'' (BufferData ''ico''),
       FsWriteFile ''fresh/site.webmanifest'' (BufferData ''{}''),
       HookCall (OnFileWritten ''fresh/site.webmanifest''),
       HookCall (OnFileWritten ''fresh/favicon.ico''),
       FsCopyFile ''fresh/favicon.ico'' ''public/favicon.ico'',
       HookCall (OnIcoCopied ''public/favicon.ico''),
       GenerateFaviconHtml [(''path'', Str ''/favicons/'')], FsMkdir ''gen'',
       FsWriteFile ''gen/favicons.html'' (Utf8Text ''<link rel=icon><meta>''),
       HookCall (OnHtmlWritten ''gen/favicons.html'')])"
  by (simp add: run_defs sample_defs copy_with_root_def)

lemma run_no_root_existing:
  "generateFavicons sample_env (copy_without_root ''out'') =
     (Inr (),
      [HookCall OnStart, FsAccess ''out'', HookCall (OnSkipFiles ''out''),
       GenerateFaviconHtml [(''path'', Str ''/favicons/'')], FsMkdir ''gen'',
       FsWriteFile ''gen/favicons.html'' (Utf8Text ''<link rel=icon><meta>''),
       HookCall (OnHtmlWritten ''gen/favicons.html'')])"
  by (simp add: run_defs sample_defs copy_without_root_def)

lemma run_no_root_fresh:
  \<open>generateFavicons sample_env (copy_without_root ''fresh'') =
     (Inl (Error ''real-favicon: "rootDir" is required when copyIcoToRoot is enabled''),
      [HookCall OnStart, FsAccess ''fresh'', FsMkdir ''fresh'', LoadAndConvertToSvg ''logo.png'',
       GetNodeImageAdapter,
       GenerateFaviconFiles \<lparr>icon = ''<svg/>''\<rparr> [(''path'', Str ''/favicons/'')] (NodeImageAdapter 0),
       FsWriteFile ''fresh/favicon.ico'' (BufferData ''ico''),
       FsWriteFile ''fresh/site.webmanifest'' (BufferData ''{}''),
       HookCall (OnFileWritten ''fresh/site.webmanifest''),
       HookCall (OnFileWritten ''fresh/favicon.ico'')])\<close>
  by (simp add: run_defs sample_defs copy_without_root_def)



text \<open>
  The Node adapter on the same request: every path is resolved against \<open>/work\<close>.
  On a request without \<open>source\<close>, which the declared type excludes, the path
  resolution throws before the generator is called.
\<close>

lemma run_node_fresh:
  "generateFaviconsNode sample_env (sample_options ''fresh'' sample_hooks) =
     (Inr (),
      [HookCall OnStart, FsAccess ''/work/fresh'', FsMkdir ''/work/fresh'',
       LoadAndConvertToSvg ''/work/logo.png'', GetNodeImageAdapter,
       GenerateFaviconFiles \<lparr>icon = ''<svg/>''\<rparr> [(''path'', Str ''/favicons/'')] (NodeImageAdapter 0),
       FsWriteFile ''/work/fresh/favicon.ico'' (BufferData ''ico''),
       FsWriteFile ''/work/fresh/site.webmanifest'' (BufferData ''{}''),
       HookCall (OnFileWritten ''/work/fresh/favicon.ico''),
       HookCall (OnFileWritten ''/work/fresh/site.webmanifest''),
       GenerateFaviconHtml [(''path'', Str ''/favicons/'')], FsMkdir ''gen'',
       FsWriteFile ''/work/gen/favicons.html'' (Utf8Text ''<link rel=icon><meta>''),
       HookCall (OnHtmlWritten ''/work/gen/favicons.html'')])"
  by (simp add: generateFaviconsNode_def resolved_options_def resolve_path_def run_defs sample_defs)

lemma run_node_without_source:
  "generateFaviconsNode sample_env [(''outputDir'', Str ''out'')] =
     (Inl (TypeError ''ERR_INVALID_ARG_TYPE''), [])"
  by (simp add: generateFaviconsNode_def resolved_options_def resolve_path_def run_defs sample_defs)

text \<open>
  A request on a missing directory whose manifest cannot be written, with an
  \<open>onFileWritten\<close> callback that throws for the icon; and a request on an
  existing directory whose only hook, \<open>onSkipFiles\<close>, throws.
\<close>

lemma run_only_skip_hook:
  "generateFavicons sample_env (sample_options ''out'' only_skip_hook) =
     (Inr (),
      [FsAccess ''out'', HookCall (OnSkipFiles ''out''),
       FsMkdir ''out'', LoadAndConvertToSvg ''logo.png'', GetNodeImageAdapter,
       GenerateFaviconFiles \<lparr>icon = ''<svg/>''\<rparr> [(''path'', Str ''/favicons/'')] (NodeImageAdapter 0),
       FsWriteFile ''out/favicon.ico'' (BufferData ''ico''),
       FsWriteFile ''out/site.webmanifest'' (BufferData ''{}''),
       GenerateFaviconHtml [(''path'', Str ''/favicons/'')], FsMkdir ''gen'',
       FsWriteFile ''gen/favicons.html'' (Utf8Text ''<link rel=icon><meta>'')])"
  by (simp add: run_defs sample_defs only_skip_hook_def)

section \<open>The claims\<close>

text \<open>
  Claim C1 says that with \<open>skipIfExists\<close> left at its default and an output directory
  that exists, \<open>onSkipFiles\<close> fires once and the run creates no directory, calls no
  collaborator and writes no favicon file. The run below is such a request whose
  \<open>onSkipFiles\<close> callback throws: the \<^verbatim>\<open>catch\<close> of the probe takes the error, the
  directory counts as missing, and the whole files phase runs. The directory is
  created, both collaborators are called, two files are written and
  \<open>onFileWritten\<close> fires twice, and the run succeeds.
\<close>

theorem C1_skip_hook_failure_runs_files_phase:
  "fs_access sample_env ''out'' = None
   \<and> property (sample_options ''out'' skip_hook_throws) ''skipIfExists'' = Undefined
   \<and> generateFavicons sample_env (sample_options ''out'' skip_hook_throws) =
     (Inr (),
      [HookCall OnStart, FsAccess ''out'', HookCall (OnSkipFiles ''out''),
       FsMkdir ''out'', LoadAndConvertToSvg ''logo.png'', GetNodeImageAdapter,
       GenerateFaviconFiles \<lparr>icon = ''<svg/>''\<rparr> [(''path'', Str ''/favicons/'')] (NodeImageAdapter 0),
       FsWriteFile ''out/favicon.ico'' (BufferData ''ico''),
       FsWriteFile ''out/site.webmanifest'' (BufferData ''{}''),
       HookCall (OnFileWritten ''out/favicon.ico''),
       HookCall (OnFileWritten ''out/site.webmanifest''),
       GenerateFaviconHtml [(''path'', Str ''/favicons/'')], FsMkdir ''gen'',
       FsWriteFile ''gen/favicons.html'' (Utf8Text ''<link rel=icon><meta>''),
       HookCall (OnHtmlWritten ''gen/favicons.html'')])"
  by (simp add: run_defs sample_defs skip_hook_throws_def)

text \<open>
  Claim C2. In a run that passed validation and did not fail before the markup
  step, whether the files were generated or skipped, the markup generator is
  called next with the caller's settings. When no \<open>htmlOutput\<close> is provided the run
  ends there. When \<open>htmlOutput\<close> is provided, the directory of that path is created,
  then the concatenation of the returned fragments is written to the path as
  UTF-8 text, then \<open>onHtmlWritten\<close> fires with the path if the slot is filled, and
  nothing else happens.
\<close>

theorem C2_markup_always_generated:
  assumes "before_html env options = (Inr (), t)"
    and "generateFaviconHtml env (rest_properties orchestration_fields options) = Inr markups"
  shows "(\<not> truthy (property options ''htmlOutput'') \<longrightarrow>
            generateFavicons env options =
              (Inr (), t @ [GenerateFaviconHtml (rest_properties orchestration_fields options)]))
       \<and> (property options ''htmlOutput'' = Str h \<and> h \<noteq> []
            \<and> fs_mkdir env (path_dirname env h) = None
            \<and> fs_writeFile env h (Utf8Text (concat markups)) = None \<longrightarrow>
            generateFavicons env options =
              ((case hook_error (property options ''hooks'') (OnHtmlWritten h) of
                  None \<Rightarrow> Inr () | Some e \<Rightarrow> Inl e),
               t @ [GenerateFaviconHtml (rest_properties orchestration_fields options),
                    FsMkdir (path_dirname env h),
                    FsWriteFile h (Utf8Text (concat markups))]
                 @ (if hook_present (property options ''hooks'') (OnHtmlWritten h)
                    then [HookCall (OnHtmlWritten h)] else [])))"
  using assms
  by (auto simp: generateFavicons_def html_phase_def Let_def and_then_call and_then_await
      fire_eq ok_def)

text \<open>The theorem of claim C2 at a sample request.\<close>

theorem C2_witness:
  "before_html sample_env (sample_options ''out'' sample_hooks) =
     (Inr (), [HookCall OnStart, FsAccess ''out'', HookCall (OnSkipFiles ''out'')])
   \<and> generateFaviconHtml sample_env
        (rest_properties orchestration_fields (sample_options ''out'' sample_hooks)) =
        Inr [''<link rel=icon>'', ''<meta>'']
   \<and> property (sample_options ''out'' sample_hooks) ''htmlOutput'' = Str ''gen/favicons.html''
   \<and> fs_mkdir sample_env (path_dirname sample_env ''gen/favicons.html'') = None
   \<and> fs_writeFile sample_env ''gen/favicons.html'' (Utf8Text ''<link rel=icon><meta>'') = None
   \<and> generateFavicons sample_env (sample_options ''out'' sample_hooks) =
       (Inr (),
        [HookCall OnStart, FsAccess ''out'', HookCall (OnSkipFiles ''out''),
         GenerateFaviconHtml [(''path'', Str ''/favicons/'')], FsMkdir ''gen'',
         FsWriteFile ''gen/favicons.html'' (Utf8Text ''<link rel=icon><meta>''),
         HookCall (OnHtmlWritten ''gen/favicons.html'')])"
proof -
  have pre: "before_html sample_env (sample_options ''out'' sample_hooks) =
     (Inr (), [HookCall OnStart, FsAccess ''out'', HookCall (OnSkipFiles ''out'')])"
    by (rule before_html_existing)
  have html: "generateFaviconHtml sample_env
        (rest_properties orchestration_fields (sample_options ''out'' sample_hooks)) =
        Inr [''<link rel=icon>'', ''<meta>'']"
    by (simp add: sample_env_def)
  have rest: "property (sample_options ''out'' sample_hooks) ''htmlOutput'' = Str ''gen/favicons.html''"
    "fs_mkdir sample_env (path_dirname sample_env ''gen/favicons.html'') = None"
    "fs_writeFile sample_env ''gen/favicons.html'' (Utf8Text ''<link rel=icon><meta>'') = None"
    by (simp_all add: sample_defs property_def)
  from C2_markup_always_generated [OF pre html, of "''gen/favicons.html''"] rest
  show ?thesis using pre html
    by (simp add: hook_error_def hook_present_def sample_defs property_def rest_properties_def
        orchestration_fields_def)
qed

text \<open>
  Claim C3. When \<open>source\<close> is absent or empty, or \<open>outputDir\<close> is absent or empty,
  the generator fails with the error naming the missing option, and it has called
  nothing before: no hook, not even \<open>onStart\<close>, and no file-system function. The
  trace of the run is empty, so the number of hook calls is zero.
\<close>

theorem C3_missing_required_option:
  \<open>absent_or_empty (property options ''source'') \<or> absent_or_empty (property options ''outputDir'') \<Longrightarrow>
   generateFavicons env options =
     (Inl (Error (if \<not> truthy (property options ''source'')
                  then ''real-favicon: "source" icon path is required''
                  else ''real-favicon: "outputDir" is required'')), [])\<close>
  by (auto simp: generateFavicons_def before_html_def Let_def throw_def absent_or_empty_def)

text \<open>The theorem of claim C3 at a sample request.\<close>

theorem C3_witness:
  \<open>absent_or_empty (property [(''outputDir'', Str ''out''), (''hooks'', Hooks sample_hooks)] ''source'')
   \<and> generateFavicons sample_env [(''outputDir'', Str ''out''), (''hooks'', Hooks sample_hooks)] =
       (Inl (Error ''real-favicon: "source" icon path is required''), [])\<close>
  using C3_missing_required_option
    [of "[(''outputDir'', Str ''out''), (''hooks'', Hooks sample_hooks)]" sample_env]
  by (simp add: absent_or_empty_def property_def)

text \<open>
  Claim C4 says that a request with \<open>copyIcoToRoot\<close> set and no \<open>rootDir\<close> fails
  with a configuration error before any I/O, whether the files phase runs or is
  skipped. Two runs of such a request show otherwise. With the output directory
  present the run succeeds. With the output directory missing the run does fail
  with that error, after the directory was created and both files were written.
\<close>

theorem C4_counterexample:
  \<open>property (copy_without_root ''out'') ''copyIcoToRoot'' = Bool True
   \<and> property (copy_without_root ''out'') ''rootDir'' = Undefined
   \<and> fst (generateFavicons sample_env (copy_without_root ''out'')) = Inr ()
   \<and> property (copy_without_root ''fresh'') ''copyIcoToRoot'' = Bool True
   \<and> property (copy_without_root ''fresh'') ''rootDir'' = Undefined
   \<and> generateFavicons sample_env (copy_without_root ''fresh'') =
     (Inl (Error ''real-favicon: "rootDir" is required when copyIcoToRoot is enabled''),
      [HookCall OnStart, FsAccess ''fresh'', FsMkdir ''fresh'', LoadAndConvertToSvg ''logo.png'',
       GetNodeImageAdapter,
       GenerateFaviconFiles \<lparr>icon = ''<svg/>''\<rparr> [(''path'', Str ''/favicons/'')] (NodeImageAdapter 0),
       FsWriteFile ''fresh/favicon.ico'' (BufferData ''ico''),
       FsWriteFile ''fresh/site.webmanifest'' (BufferData ''{}''),
       HookCall (OnFileWritten ''fresh/site.webmanifest''),
       HookCall (OnFileWritten ''fresh/favicon.ico'')])\<close>
  unfolding run_no_root_existing run_no_root_fresh
  by (simp add: copy_without_root_def sample_options_def property_def)

text \<open>
  Claim C4 as amended. For a request with \<open>copyIcoToRoot\<close> set and no \<open>rootDir\<close>:
  the copy is never attempted and \<open>onIcoCopied\<close> never fires; when the files phase
  runs and everything up to and including the file writes succeeds, the run fails
  with the configuration error, raised at the copy step after that I/O; when the
  files phase is skipped the check is not made and the run goes on to the markup.
\<close>

theorem C4_root_checked_at_copy_step:
  fixes env :: env and options :: jsobject
  defines "hs \<equiv> property options ''hooks''"
    and "p \<equiv> path_of (property options ''outputDir'')"
    and "src \<equiv> path_of (property options ''source'')"
    and "settings \<equiv> rest_properties orchestration_fields options"
  defines "P \<equiv> probe env hs (with_default (Bool True) (property options ''skipIfExists'')) p"
  assumes valid: "truthy (property options ''source'')" "truthy (property options ''outputDir'')"
    and copy: "truthy (property options ''copyIcoToRoot'')"
    and no_root: "\<not> truthy (property options ''rootDir'')"
  shows \<open>(\<forall>ev \<in> set (snd (generateFavicons env options)). \<not> copy_event ev)
       \<and> (hook_error hs OnStart = None \<and> fst P = Inr False \<and> fs_mkdir env p = None
          \<and> loadAndConvertToSvg env src = Inr svg \<and> getNodeImageAdapter env = Inr adapter
          \<and> generateFaviconFiles env \<lparr>icon = svg\<rparr> settings adapter = Inr files
          \<and> fst (persist_files env hs p files) = Inr () \<longrightarrow>
          generateFavicons env options =
            (Inl (Error ''real-favicon: "rootDir" is required when copyIcoToRoot is enabled''),
             snd (fire hs OnStart) @ snd P
             @ [FsMkdir p, LoadAndConvertToSvg src, GetNodeImageAdapter,
                GenerateFaviconFiles \<lparr>icon = svg\<rparr> settings adapter]
             @ snd (persist_files env hs p files)))
       \<and> (hook_error hs OnStart = None \<and> fst P = Inr True \<longrightarrow>
          generateFavicons env options =
            (fst (html_phase env hs (property options ''htmlOutput'') settings),
             snd (fire hs OnStart) @ snd P
             @ snd (html_phase env hs (property options ''htmlOutput'') settings)))\<close>
proof (intro conjI ballI impI)
  let ?F = "files_phase env hs src p (property options ''copyIcoToRoot'')
              (property options ''rootDir'') settings"
  note g = generateFavicons_cases [OF valid, of env, folded hs_def p_def src_def settings_def]
  note c = copy_ico_without_root [OF copy no_root]
  note fc = files_phase_cases [where env = env and p = p and hs = hs and src = src
      and c = "property options ''copyIcoToRoot''" and r = "property options ''rootDir''"
      and s = settings]
  {
    fix ev assume ev: "ev \<in> set (snd (generateFavicons env options))"
    show "\<not> copy_event ev"
    proof
      assume ce: "copy_event ev"
      then have "ev \<in> set (snd ?F)"
        using ev copy_event_kind [OF ce] unfolding g
        by (auto simp: fire_event_iff not_in_phase split: option.splits if_splits sum.splits)
      then obtain files where "ev \<in> set (snd (persist_and_copy env hs p
          (property options ''copyIcoToRoot'') (property options ''rootDir'') files))"
        using fc ce by auto
      then have "persist_event ev"
        unfolding persist_and_copy_eq c
        by (auto dest: persist_files_events split: sum.splits)
      then show False using copy_event_kind [OF ce] by simp
    qed
  }
  {
    assume a: "hook_error hs OnStart = None \<and> fst P = Inr False \<and> fs_mkdir env p = None
          \<and> loadAndConvertToSvg env src = Inr svg \<and> getNodeImageAdapter env = Inr adapter
          \<and> generateFaviconFiles env \<lparr>icon = svg\<rparr> settings adapter = Inr files
          \<and> fst (persist_files env hs p files) = Inr ()"
    then have \<open>?F = (Inl (Error ''real-favicon: "rootDir" is required when copyIcoToRoot is enabled''),
        [FsMkdir p, LoadAndConvertToSvg src, GetNodeImageAdapter,
         GenerateFaviconFiles \<lparr>icon = svg\<rparr> settings adapter] @ snd (persist_files env hs p files))\<close>
      using fc by (auto simp: persist_and_copy_eq c)
    then show \<open>generateFavicons env options =
            (Inl (Error ''real-favicon: "rootDir" is required when copyIcoToRoot is enabled''),
             snd (fire hs OnStart) @ snd P
             @ [FsMkdir p, LoadAndConvertToSvg src, GetNodeImageAdapter,
                GenerateFaviconFiles \<lparr>icon = svg\<rparr> settings adapter]
             @ snd (persist_files env hs p files))\<close>
      using a unfolding g P_def by simp
  }
  {
    assume "hook_error hs OnStart = None \<and> fst P = Inr True"
    then show "generateFavicons env options =
            (fst (html_phase env hs (property options ''htmlOutput'') settings),
             snd (fire hs OnStart) @ snd P
             @ snd (html_phase env hs (property options ''htmlOutput'') settings))"
      unfolding g P_def by simp
  }
qed

text \<open>The theorem of claim C4 at a sample request.\<close>

theorem C4_witness:
  \<open>truthy (property (copy_without_root ''fresh'') ''source'')
   \<and> truthy (property (copy_without_root ''fresh'') ''outputDir'')
   \<and> truthy (property (copy_without_root ''fresh'') ''copyIcoToRoot'')
   \<and> \<not> truthy (property (copy_without_root ''fresh'') ''rootDir'')
   \<and> hook_error (Hooks sample_hooks) OnStart = None
   \<and> fst (probe sample_env (Hooks sample_hooks) (Bool True) ''fresh'') = Inr False
   \<and> fs_mkdir sample_env ''fresh'' = None
   \<and> loadAndConvertToSvg sample_env ''logo.png'' = Inr ''<svg/>''
   \<and> getNodeImageAdapter sample_env = Inr (NodeImageAdapter 0)
   \<and> generateFaviconFiles sample_env \<lparr>icon = ''<svg/>''\<rparr> [(''path'', Str ''/favicons/'')]
         (NodeImageAdapter 0) = Inr sample_files
   \<and> fst (persist_files sample_env (Hooks sample_hooks) ''fresh'' sample_files) = Inr ()
   \<and> fst (generateFavicons sample_env (copy_without_root ''fresh'')) =
       Inl (Error ''real-favicon: "rootDir" is required when copyIcoToRoot is enabled'')
   \<and> filter copy_event (snd (generateFavicons sample_env (copy_without_root ''fresh''))) = []\<close>
proof -
  let ?options = "copy_without_root ''fresh''"
  have request: "truthy (property ?options ''source'')" "truthy (property ?options ''outputDir'')"
    "truthy (property ?options ''copyIcoToRoot'')" "\<not> truthy (property ?options ''rootDir'')"
    by (simp_all add: copy_without_root_def sample_options_def property_def)
  have fields: "property ?options ''hooks'' = Hooks sample_hooks"
    "path_of (property ?options ''outputDir'') = ''fresh''"
    "path_of (property ?options ''source'') = ''logo.png''"
    "with_default (Bool True) (property ?options ''skipIfExists'') = Bool True"
    "rest_properties orchestration_fields ?options = [(''path'', Str ''/favicons/'')]"
    by (simp_all add: copy_without_root_def sample_options_def property_def with_default_def
        rest_properties_def orchestration_fields_def)
  have world: "hook_error (Hooks sample_hooks) OnStart = None"
    "fst (probe sample_env (Hooks sample_hooks) (Bool True) ''fresh'') = Inr False"
    "fs_mkdir sample_env ''fresh'' = None"
    "loadAndConvertToSvg sample_env ''logo.png'' = Inr ''<svg/>''"
    "getNodeImageAdapter sample_env = Inr (NodeImageAdapter 0)"
    "generateFaviconFiles sample_env \<lparr>icon = ''<svg/>''\<rparr> [(''path'', Str ''/favicons/'')]
         (NodeImageAdapter 0) = Inr sample_files"
    "fst (persist_files sample_env (Hooks sample_hooks) ''fresh'' sample_files) = Inr ()"
    by (simp_all add: run_defs sample_defs hook_error_def)
  note claim = C4_root_checked_at_copy_step [OF request, of sample_env "''<svg/>''"
      "NodeImageAdapter 0" sample_files, unfolded fields]
  from claim world
  have \<open>fst (generateFavicons sample_env ?options) =
       Inl (Error ''real-favicon: "rootDir" is required when copyIcoToRoot is enabled'')\<close>
    by simp
  moreover from claim
  have "\<forall>ev \<in> set (snd (generateFavicons sample_env ?options)). \<not> copy_event ev"
    by blast
  then have "filter copy_event (snd (generateFavicons sample_env ?options)) = []"
    by (simp add: filter_empty_conv)
  ultimately show ?thesis using request world by simp
qed

text \<open>
  Claim C5 says that on the skip path only directory creation, normalisation and
  file-set generation are bypassed, and that the run resumes with the persistence
  of the files. The request below asks for the copy of \<^verbatim>\<open>favicon.ico\<close> and its
  output directory exists: the run writes no favicon file and copies nothing,
  while the same request on a missing directory copies the icon.
\<close>

theorem C5_counterexample:
  "truthy (with_default (Bool True) (property (copy_with_root ''out'') ''skipIfExists''))
   \<and> fs_access sample_env ''out'' = None
   \<and> property (copy_with_root ''out'') ''copyIcoToRoot'' = Bool True
   \<and> property (copy_with_root ''out'') ''rootDir'' = Str ''public''
   \<and> fst (generateFavicons sample_env (copy_with_root ''out'')) = Inr ()
   \<and> favicon_writes (snd (generateFavicons sample_env (copy_with_root ''out''))) = []
   \<and> filter copy_event (snd (generateFavicons sample_env (copy_with_root ''out''))) = []
   \<and> filter copy_event (snd (generateFavicons sample_env (copy_with_root ''fresh''))) =
       [FsCopyFile ''fresh/favicon.ico'' ''public/favicon.ico'',
        HookCall (OnIcoCopied ''public/favicon.ico'')]"
  unfolding run_copy_existing run_copy_fresh
  by (simp add: sample_defs copy_with_root_def property_def with_default_def)

text \<open>
  Claim C5 as amended. When \<open>skipIfExists\<close> is enabled, the output directory exists
  and the \<open>onStart\<close> and \<open>onSkipFiles\<close> callbacks return, the run consists of the
  \<open>onStart\<close> call, the access probe, the \<open>onSkipFiles\<close> call and the markup phase,
  which begins with the call of the markup generator. Directory creation,
  normalisation, file-set generation, file persistence and the icon copy are all
  bypassed.
\<close>

theorem C5_skip_resumes_at_markup:
  fixes env :: env and options :: jsobject
  defines "hs \<equiv> property options ''hooks''"
    and "p \<equiv> path_of (property options ''outputDir'')"
    and "settings \<equiv> rest_properties orchestration_fields options"
  assumes valid: "truthy (property options ''source'')" "truthy (property options ''outputDir'')"
    and skip: "truthy (with_default (Bool True) (property options ''skipIfExists''))"
    and exists: "fs_access env p = None"
    and hooks_return: "hook_error hs OnStart = None" "hook_error hs (OnSkipFiles p) = None"
  shows "generateFavicons env options =
           (fst (html_phase env hs (property options ''htmlOutput'') settings),
            (if hook_present hs OnStart then [HookCall OnStart] else [])
            @ [FsAccess p]
            @ (if hook_present hs (OnSkipFiles p) then [HookCall (OnSkipFiles p)] else [])
            @ snd (html_phase env hs (property options ''htmlOutput'') settings))
         \<and> (\<exists>rest. snd (html_phase env hs (property options ''htmlOutput'') settings) =
                     GenerateFaviconHtml settings # rest)"
proof -
  have P: "probe env hs (with_default (Bool True) (property options ''skipIfExists'')) p =
             (Inr True, FsAccess p # snd (fire hs (OnSkipFiles p)))"
    using probe_cases [of env hs "with_default (Bool True) (property options ''skipIfExists'')" p]
      skip exists hooks_return(2)
    by auto
  show ?thesis
    unfolding generateFavicons_cases [OF valid, of env, folded hs_def p_def settings_def] P
    using hooks_return(1) html_phase_starts_with_generate [of env hs _ settings]
    by (simp add: fire_trace)
qed

text \<open>The theorem of claim C5 at a sample request.\<close>

theorem C5_witness:
  "truthy (property (copy_with_root ''out'') ''source'')
   \<and> truthy (property (copy_with_root ''out'') ''outputDir'')
   \<and> truthy (with_default (Bool True) (property (copy_with_root ''out'') ''skipIfExists''))
   \<and> fs_access sample_env ''out'' = None
   \<and> hook_error (Hooks sample_hooks) OnStart = None
   \<and> hook_error (Hooks sample_hooks) (OnSkipFiles ''out'') = None
   \<and> snd (generateFavicons sample_env (copy_with_root ''out'')) =
       [HookCall OnStart, FsAccess ''out'', HookCall (OnSkipFiles ''out'')]
       @ snd (html_phase sample_env (Hooks sample_hooks) (Str ''gen/favicons.html'')
               [(''path'', Str ''/favicons/'')])"
proof -
  have valid: "truthy (property (copy_with_root ''out'') ''source'')"
    "truthy (property (copy_with_root ''out'') ''outputDir'')"
    by (simp_all add: copy_with_root_def sample_options_def property_def)
  have skip: "truthy (with_default (Bool True) (property (copy_with_root ''out'') ''skipIfExists''))"
    "fs_access sample_env (path_of (property (copy_with_root ''out'') ''outputDir'')) = None"
    "hook_error (property (copy_with_root ''out'') ''hooks'') OnStart = None"
    "hook_error (property (copy_with_root ''out'') ''hooks'')
       (OnSkipFiles (path_of (property (copy_with_root ''out'') ''outputDir''))) = None"
    by (simp_all add: copy_with_root_def sample_defs property_def with_default_def hook_error_def)
  from C5_skip_resumes_at_markup [OF valid skip]
  show ?thesis using valid skip
    by (simp add: copy_with_root_def sample_options_def sample_hooks_def property_def
        hook_present_def rest_properties_def orchestration_fields_def)
qed

text \<open>
  Claim C6. When the image normalisation or the generation of the file set is
  called and fails, the run ends with that error and has written no favicon file.
  Conversely a run that wrote a favicon file has called both collaborators
  before its first write, and both returned a result.
\<close>

theorem C6_collaborator_failure_writes_nothing:
  "(LoadAndConvertToSvg src \<in> set (snd (generateFavicons env options))
      \<and> loadAndConvertToSvg env src = Inl e
    \<longrightarrow> fst (generateFavicons env options) = Inl e
        \<and> favicon_writes (snd (generateFavicons env options)) = [])
   \<and> (GenerateFaviconFiles m s a \<in> set (snd (generateFavicons env options))
      \<and> generateFaviconFiles env m s a = Inl e
    \<longrightarrow> fst (generateFavicons env options) = Inl e
        \<and> favicon_writes (snd (generateFavicons env options)) = [])
   \<and> (favicon_writes (snd (generateFavicons env options)) \<noteq> []
    \<longrightarrow> (\<exists>svg adapter files pre post.
          snd (generateFavicons env options) =
            pre @ [LoadAndConvertToSvg (path_of (property options ''source'')),
                   GetNodeImageAdapter,
                   GenerateFaviconFiles \<lparr>icon = svg\<rparr>
                     (rest_properties orchestration_fields options) adapter] @ post
          \<and> favicon_writes pre = []
          \<and> loadAndConvertToSvg env (path_of (property options ''source'')) = Inr svg
          \<and> generateFaviconFiles env \<lparr>icon = svg\<rparr>
                (rest_properties orchestration_fields options) adapter = Inr files))"
proof -
  let ?G = "generateFavicons env options"
  let ?F = "files_phase env (property options ''hooks'') (path_of (property options ''source''))
               (path_of (property options ''outputDir'')) (property options ''copyIcoToRoot'')
               (property options ''rootDir'') (rest_properties orchestration_fields options)"
  have failed: "fst ?G = Inl e \<and> favicon_writes (snd ?G) = []"
    if ev: "ev \<in> set (snd ?G)" "ev = LoadAndConvertToSvg src \<or> ev = GenerateFaviconFiles m s a"
      and bad: "ev = LoadAndConvertToSvg src \<longrightarrow> loadAndConvertToSvg env src = Inl e"
               "ev = GenerateFaviconFiles m s a \<longrightarrow> generateFaviconFiles env m s a = Inl e"
    for ev
  proof -
    have kind: "\<not> probe_event ev" "\<not> html_event ev" "ev \<noteq> HookCall OnStart"
      using ev(2) by auto
    obtain pre post where shape: "snd ?G = pre @ snd ?F @ post" "ev \<in> set (snd ?F)"
        "favicon_writes pre = []" "favicon_writes post = []" "fst ?G = fst ?F \<or> fst ?F = Inr ()"
      using files_event_only_in_files_phase [OF ev(1) kind] by blast
    have "fst ?F = Inl e \<and> favicon_writes (snd ?F) = []"
      using files_phase_collaborator_failed [where env = env and src' = src and e = e
          and m = m and s' = s and a = a] shape(2) ev(2) bad
      by blast
    then show ?thesis using shape by auto
  qed
  have written: "\<exists>svg adapter files pre post.
          snd ?G = pre @ [LoadAndConvertToSvg (path_of (property options ''source'')),
                   GetNodeImageAdapter,
                   GenerateFaviconFiles \<lparr>icon = svg\<rparr>
                     (rest_properties orchestration_fields options) adapter] @ post
          \<and> favicon_writes pre = []
          \<and> loadAndConvertToSvg env (path_of (property options ''source'')) = Inr svg
          \<and> generateFaviconFiles env \<lparr>icon = svg\<rparr>
                (rest_properties orchestration_fields options) adapter = Inr files"
    if ne: "favicon_writes (snd ?G) \<noteq> []"
  proof -
    obtain ev where ev: "ev \<in> set (snd ?G)" "is_favicon_write ev"
      using ne by (auto simp: favicon_writes_empty)
    have kind: "\<not> probe_event ev" "\<not> html_event ev" "ev \<noteq> HookCall OnStart"
      using ev(2) favicon_write_kind by auto
    obtain pre post where shape: "snd ?G = pre @ snd ?F @ post" "ev \<in> set (snd ?F)"
        "favicon_writes pre = []"
      using files_event_only_in_files_phase [OF ev(1) kind] by blast
    obtain svg adapter files post' where F:
        "snd ?F = [FsMkdir (path_of (property options ''outputDir'')),
                   LoadAndConvertToSvg (path_of (property options ''source'')),
                   GetNodeImageAdapter,
                   GenerateFaviconFiles \<lparr>icon = svg\<rparr>
                     (rest_properties orchestration_fields options) adapter] @ post'"
        "loadAndConvertToSvg env (path_of (property options ''source'')) = Inr svg"
        "generateFaviconFiles env \<lparr>icon = svg\<rparr>
           (rest_properties orchestration_fields options) adapter = Inr files"
      using files_phase_written [OF shape(2) ev(2)] by auto
    show ?thesis
      using shape(1,3) F
      by (intro exI [of _ svg] exI [of _ adapter] exI [of _ files]
          exI [of _ "pre @ [FsMkdir (path_of (property options ''outputDir''))]"]
          exI [of _ "post' @ post"]) simp
  qed
  show ?thesis using failed written by blast
qed

text \<open>The theorem of claim C6 at a sample request.\<close>

theorem C6_witness:
  "LoadAndConvertToSvg ''logo.png''
     \<in> set (snd (generateFavicons env_bad_image (sample_options ''fresh'' sample_hooks)))
   \<and> loadAndConvertToSvg env_bad_image ''logo.png'' = Inl (Error ''unsupported image'')
   \<and> fst (generateFavicons env_bad_image (sample_options ''fresh'' sample_hooks))
       = Inl (Error ''unsupported image'')
   \<and> favicon_writes (snd (generateFavicons env_bad_image (sample_options ''fresh'' sample_hooks))) = []
   \<and> GenerateFaviconFiles \<lparr>icon = ''<svg/>''\<rparr> [(''path'', Str ''/favicons/'')] (NodeImageAdapter 0)
     \<in> set (snd (generateFavicons env_bad_generate (sample_options ''fresh'' sample_hooks)))
   \<and> generateFaviconFiles env_bad_generate \<lparr>icon = ''<svg/>''\<rparr> [(''path'', Str ''/favicons/'')]
       (NodeImageAdapter 0) = Inl (Error ''cannot generate'')
   \<and> fst (generateFavicons env_bad_generate (sample_options ''fresh'' sample_hooks))
       = Inl (Error ''cannot generate'')
   \<and> favicon_writes (snd (generateFavicons env_bad_generate (sample_options ''fresh'' sample_hooks))) = []"
proof -
  have called: "LoadAndConvertToSvg ''logo.png''
     \<in> set (snd (generateFavicons env_bad_image (sample_options ''fresh'' sample_hooks)))"
    by (simp add: run_bad_image)
  have failed: "loadAndConvertToSvg env_bad_image ''logo.png'' = Inl (Error ''unsupported image'')"
    by (simp add: env_bad_image_def)
  have called': "GenerateFaviconFiles \<lparr>icon = ''<svg/>''\<rparr> [(''path'', Str ''/favicons/'')]
       (NodeImageAdapter 0)
     \<in> set (snd (generateFavicons env_bad_generate (sample_options ''fresh'' sample_hooks)))"
    by (simp add: run_bad_generate)
  have failed': "generateFaviconFiles env_bad_generate \<lparr>icon = ''<svg/>''\<rparr>
       [(''path'', Str ''/favicons/'')] (NodeImageAdapter 0) = Inl (Error ''cannot generate'')"
    by (simp add: env_bad_generate_def)
  from C6_collaborator_failure_writes_nothing
    [of "''logo.png''" env_bad_image "sample_options ''fresh'' sample_hooks"
      "Error ''unsupported image''"]
    called failed
  have first: "fst (generateFavicons env_bad_image (sample_options ''fresh'' sample_hooks))
       = Inl (Error ''unsupported image'')
     \<and> favicon_writes (snd (generateFavicons env_bad_image (sample_options ''fresh'' sample_hooks))) = []"
    by blast
  from C6_collaborator_failure_writes_nothing
    [of _ env_bad_generate "sample_options ''fresh'' sample_hooks" "Error ''cannot generate''"
      "\<lparr>icon = ''<svg/>''\<rparr>" "[(''path'', Str ''/favicons/'')]" "NodeImageAdapter 0"]
    called' failed'
  have second: "fst (generateFavicons env_bad_generate (sample_options ''fresh'' sample_hooks))
       = Inl (Error ''cannot generate'')
     \<and> favicon_writes (snd (generateFavicons env_bad_generate (sample_options ''fresh'' sample_hooks))) = []"
    by blast
  from called failed first called' failed' second show ?thesis by (simp only: simp_thms)
qed

text \<open>
  Claim C7. The settings handed to the file generator and to the markup generator
  are the request without the seven orchestration properties \<open>source\<close>,
  \<open>outputDir\<close>, \<open>htmlOutput\<close>, \<open>skipIfExists\<close>, \<open>copyIcoToRoot\<close>, \<open>rootDir\<close> and
  \<open>hooks\<close>: the same properties in the same order, and every other property
  reads in the settings as it reads in the request.
\<close>

theorem C7_settings_payload:
  "(GenerateFaviconFiles m s a \<in> set (snd (generateFavicons env options)) \<or>
    GenerateFaviconHtml s \<in> set (snd (generateFavicons env options))
    \<longrightarrow> s = filter (\<lambda>kv. fst kv \<notin> {''source'', ''outputDir'', ''htmlOutput'', ''skipIfExists'',
                                        ''copyIcoToRoot'', ''rootDir'', ''hooks''}) options
        \<and> (\<forall>k. property s k =
               (if k \<in> {''source'', ''outputDir'', ''htmlOutput'', ''skipIfExists'',
                        ''copyIcoToRoot'', ''rootDir'', ''hooks''}
                then Undefined else property options k)))"
proof
  assume "GenerateFaviconFiles m s a \<in> set (snd (generateFavicons env options)) \<or>
    GenerateFaviconHtml s \<in> set (snd (generateFavicons env options))"
  then have s: "s = rest_properties orchestration_fields options"
    using html_or_files_settings by blast
  show "s = filter (\<lambda>kv. fst kv \<notin> {''source'', ''outputDir'', ''htmlOutput'', ''skipIfExists'',
                                        ''copyIcoToRoot'', ''rootDir'', ''hooks''}) options
        \<and> (\<forall>k. property s k =
               (if k \<in> {''source'', ''outputDir'', ''htmlOutput'', ''skipIfExists'',
                        ''copyIcoToRoot'', ''rootDir'', ''hooks''}
                then Undefined else property options k))"
    unfolding s using rest_orchestration_fields property_rest_orchestration by blast
qed

text \<open>The theorem of claim C7 at a sample request.\<close>

theorem C7_witness:
  "GenerateFaviconFiles \<lparr>icon = ''<svg/>''\<rparr> [(''path'', Str ''/favicons/'')] (NodeImageAdapter 0)
     \<in> set (snd (generateFavicons sample_env (sample_options ''fresh'' sample_hooks)))
   \<and> [(''path'', Str ''/favicons/'')] =
       filter (\<lambda>kv. fst kv \<notin> {''source'', ''outputDir'', ''htmlOutput'', ''skipIfExists'',
                                ''copyIcoToRoot'', ''rootDir'', ''hooks''})
         (sample_options ''fresh'' sample_hooks)"
proof -
  have called: "GenerateFaviconFiles \<lparr>icon = ''<svg/>''\<rparr> [(''path'', Str ''/favicons/'')] (NodeImageAdapter 0)
     \<in> set (snd (generateFavicons sample_env (sample_options ''fresh'' sample_hooks)))"
    by (simp add: run_fresh)
  from C7_settings_payload
    [of "\<lparr>icon = ''<svg/>''\<rparr>" "[(''path'', Str ''/favicons/'')]" "NodeImageAdapter 0" sample_env
      "sample_options ''fresh'' sample_hooks"] called
  show ?thesis by blast
qed




text \<open>
  Claim C9. For options of the declared type, with the two required strings
  present, the Node adapter and the \<open>buildStart\<close> of the Vite plugin both call the
  generator once, on one object: \<open>source\<close> and \<open>outputDir\<close> resolved against the
  working directory, \<open>rootDir\<close> and \<open>htmlOutput\<close> resolved when provided and
  undefined otherwise, and every other property, the hooks included, as in the
  options. The adapters do nothing else: their run is the generator's run on
  that object, which is also the run the specification's wording describes.
\<close>

theorem C9_adapters_only_resolve_paths:
  fixes env :: env and options :: jsobject
  assumes typed: "well_typed options"
    and source: "property options ''source'' = Str s"
    and outputDir: "property options ''outputDir'' = Str d"
  shows "\<exists>forwarded.
           generateFaviconsNode env options = generateFavicons env forwarded
         \<and> buildStart (realFavicon options) env = generateFavicons env forwarded
         \<and> property forwarded ''source'' = Str (path_resolve env (process_cwd env) s)
         \<and> property forwarded ''outputDir'' = Str (path_resolve env (process_cwd env) d)
         \<and> property forwarded ''rootDir'' =
             (if provided (property options ''rootDir'')
              then Str (path_resolve env (process_cwd env) (path_of (property options ''rootDir'')))
              else Undefined)
         \<and> property forwarded ''htmlOutput'' =
             (if provided (property options ''htmlOutput'')
              then Str (path_resolve env (process_cwd env) (path_of (property options ''htmlOutput'')))
              else Undefined)
         \<and> (\<forall>k. k \<notin> {''source'', ''outputDir'', ''rootDir'', ''htmlOutput''} \<longrightarrow>
                property forwarded k = property options k)
         \<and> generateFavicons env forwarded = spec_adapter env options"
proof -
  let ?root = "if provided (property options ''rootDir'')
               then Str (path_resolve env (process_cwd env) (path_of (property options ''rootDir'')))
               else Undefined"
  let ?html = "if provided (property options ''htmlOutput'')
               then Str (path_resolve env (process_cwd env) (path_of (property options ''htmlOutput'')))
               else Undefined"
  let ?fwd = "AList.update ''htmlOutput'' ?html
               (AList.update ''rootDir'' ?root
                 (AList.update ''outputDir'' (Str (path_resolve env (process_cwd env) d))
                   (AList.update ''source'' (Str (path_resolve env (process_cwd env) s)) options)))"
  have strings: "opt_string (property options ''rootDir'')"
      "opt_string (property options ''htmlOutput'')"
    using typed by (simp_all add: well_typed_def)
  have literal: "resolved_options env (process_cwd env) options = ok ?fwd"
    using source outputDir strings
    by (auto simp: resolved_options_def resolve_path_def truthy_string
        dest: provided_string split: jsval.splits)
  have node: "generateFaviconsNode env options = generateFavicons env ?fwd"
    by (simp add: generateFaviconsNode_def Let_def literal)
  have vite: "buildStart (realFavicon options) env = generateFavicons env ?fwd"
    by (simp add: realFavicon_def Let_def literal)
  have spec: "generateFavicons env ?fwd = spec_adapter env options"
    unfolding spec_adapter_def
  proof (rule generateFavicons_cong)
    show "rest_properties orchestration_fields ?fwd =
          rest_properties orchestration_fields (spec_adapter_options env (process_cwd env) options)"
      by (simp add: spec_adapter_options_def resolve_property_def Let_def
          rest_properties_update orchestration_fields_def)
  qed (use source outputDir strings in
      \<open>auto simp: spec_adapter_options_def resolve_property_def Let_def property_update
         truthy_string\<close>)
  show ?thesis
    using node vite spec
    by (intro exI [of _ ?fwd]) (simp add: property_update)
qed

text \<open>The theorem of claim C9 at a sample request.\<close>

theorem C9_witness:
  "well_typed (sample_options ''fresh'' sample_hooks)
   \<and> property (sample_options ''fresh'' sample_hooks) ''source'' = Str ''logo.png''
   \<and> property (sample_options ''fresh'' sample_hooks) ''outputDir'' = Str ''fresh''
   \<and> generateFaviconsNode sample_env (sample_options ''fresh'' sample_hooks) =
       spec_adapter sample_env (sample_options ''fresh'' sample_hooks)
   \<and> buildStart (realFavicon (sample_options ''fresh'' sample_hooks)) sample_env =
       spec_adapter sample_env (sample_options ''fresh'' sample_hooks)"
proof -
  have typed: "well_typed (sample_options ''fresh'' sample_hooks)"
    by (simp add: well_typed_def property_def sample_options_def)
  have paths: "property (sample_options ''fresh'' sample_hooks) ''source'' = Str ''logo.png''"
    "property (sample_options ''fresh'' sample_hooks) ''outputDir'' = Str ''fresh''"
    by (simp_all add: property_def sample_options_def)
  from C9_adapters_only_resolve_paths [OF typed paths, of sample_env]
  obtain forwarded where
    "generateFaviconsNode sample_env (sample_options ''fresh'' sample_hooks) =
       generateFavicons sample_env forwarded"
    "buildStart (realFavicon (sample_options ''fresh'' sample_hooks)) sample_env =
       generateFavicons sample_env forwarded"
    "generateFavicons sample_env forwarded =
       spec_adapter sample_env (sample_options ''fresh'' sample_hooks)"
    by blast
  then have "generateFaviconsNode sample_env (sample_options ''fresh'' sample_hooks) =
       spec_adapter sample_env (sample_options ''fresh'' sample_hooks)"
    "buildStart (realFavicon (sample_options ''fresh'' sample_hooks)) sample_env =
       spec_adapter sample_env (sample_options ''fresh'' sample_hooks)"
    by (simp_all only:)
  with typed paths show ?thesis by (simp only: simp_thms)
qed

text \<open>
  Claim C10. When \<open>skipIfExists\<close> is enabled and the access probe fails, the run
  has the outcome of the same request with \<open>skipIfExists\<close> disabled and the same
  calls, with the one access call added before the creation of the output
  directory: the failure is caught and the files phase runs. And \<open>onSkipFiles\<close>
  is called only with the output directory, with \<open>skipIfExists\<close> enabled and after
  a successful probe.
\<close>

theorem C10_probe_never_fails:
  fixes env :: env and options :: jsobject
  defines "hs \<equiv> property options ''hooks''"
    and "p \<equiv> path_of (property options ''outputDir'')"
    and "unprobed \<equiv> AList.update ''skipIfExists'' (Bool False) options"
  assumes valid: "truthy (property options ''source'')" "truthy (property options ''outputDir'')"
  shows "(truthy (with_default (Bool True) (property options ''skipIfExists''))
          \<and> fs_access env p \<noteq> None \<and> hook_error hs OnStart = None \<longrightarrow>
          fst (generateFavicons env options) = fst (generateFavicons env unprobed)
          \<and> (\<exists>before after.
                snd (generateFavicons env options) = before @ FsAccess p # FsMkdir p # after
                \<and> snd (generateFavicons env unprobed) = before @ FsMkdir p # after))
       \<and> (\<forall>q. HookCall (OnSkipFiles q) \<in> set (snd (generateFavicons env options)) \<longrightarrow>
            q = p \<and> truthy (with_default (Bool True) (property options ''skipIfExists''))
            \<and> fs_access env p = None)"
proof (intro conjI impI allI)
  let ?s = "with_default (Bool True) (property options ''skipIfExists'')"
  let ?F = "files_phase env hs (path_of (property options ''source'')) p
               (property options ''copyIcoToRoot'') (property options ''rootDir'')
               (rest_properties orchestration_fields options)"
  let ?H = "html_phase env hs (property options ''htmlOutput'')
               (rest_properties orchestration_fields options)"
  note g = generateFavicons_cases [OF valid, of env, folded hs_def p_def]
  have valid': "truthy (property unprobed ''source'')" "truthy (property unprobed ''outputDir'')"
    using valid by (simp_all add: unprobed_def property_update)
  have g': "generateFavicons env unprobed =
      (case hook_error hs OnStart of
        Some e \<Rightarrow> (Inl e, [HookCall OnStart])
      | None \<Rightarrow>
         (case fst ?F of
            Inl e \<Rightarrow> (Inl e, snd (fire hs OnStart) @ snd ?F)
          | Inr u \<Rightarrow> (fst ?H, snd (fire hs OnStart) @ snd ?F @ snd ?H)))"
  proof -
    have props: "property unprobed ''hooks'' = hs"
      "path_of (property unprobed ''outputDir'') = p"
      "property unprobed ''source'' = property options ''source''"
      "property unprobed ''copyIcoToRoot'' = property options ''copyIcoToRoot''"
      "property unprobed ''rootDir'' = property options ''rootDir''"
      "property unprobed ''htmlOutput'' = property options ''htmlOutput''"
      "property unprobed ''skipIfExists'' = Bool False"
      "rest_properties orchestration_fields unprobed = rest_properties orchestration_fields options"
      by (simp_all add: unprobed_def property_update rest_properties_update
          orchestration_fields_def hs_def p_def)
    have P': "probe env hs (with_default (Bool True) (Bool False)) p = (Inr False, [])"
      by (simp add: probe_def with_default_def ok_def)
    show ?thesis
      unfolding generateFavicons_cases [OF valid', of env] props P'
      by (simp split: option.splits sum.splits)
  qed
  {
    assume a: "truthy ?s \<and> fs_access env p \<noteq> None \<and> hook_error hs OnStart = None"
    then have P: "probe env hs ?s p = (Inr False, [FsAccess p])"
      using probe_cases [of env hs ?s p] by auto
    obtain rest where F: "snd ?F = FsMkdir p # rest"
      using files_phase_starts_with_mkdir by blast
    show "fst (generateFavicons env options) = fst (generateFavicons env unprobed)"
      using a unfolding g g' P by (simp split: sum.splits)
    show "\<exists>before after.
            snd (generateFavicons env options) = before @ FsAccess p # FsMkdir p # after
            \<and> snd (generateFavicons env unprobed) = before @ FsMkdir p # after"
    proof (cases "fst ?F")
      case (Inl e)
      then show ?thesis
        using a unfolding g g' P F
        by (intro exI [of _ "snd (fire hs OnStart)"] exI [of _ rest]) simp
    next
      case (Inr u)
      then show ?thesis
        using a unfolding g g' P F
        by (intro exI [of _ "snd (fire hs OnStart)"] exI [of _ "rest @ snd ?H"]) simp
    qed
  }
  {
    fix q
    assume "HookCall (OnSkipFiles q) \<in> set (snd (generateFavicons env options))"
    then have "HookCall (OnSkipFiles q) \<in> set (snd (probe env hs ?s p))"
      unfolding g
      by (auto simp: fire_event_iff not_in_phase dest: files_phase_events
          split: option.splits if_splits sum.splits)
    then have "q = p \<and> truthy ?s \<and> fs_access env p = None"
      using probe_cases [of env hs ?s p] by (auto simp: fire_event_iff)
    then show "q = p" and "truthy ?s" and "fs_access env p = None" by simp_all
  }
qed

text \<open>The theorem of claim C10 at a sample request.\<close>

theorem C10_witness:
  "truthy (property (sample_options ''fresh'' sample_hooks) ''source'')
   \<and> truthy (property (sample_options ''fresh'' sample_hooks) ''outputDir'')
   \<and> truthy (with_default (Bool True) (property (sample_options ''fresh'' sample_hooks) ''skipIfExists''))
   \<and> fs_access sample_env ''fresh'' \<noteq> None
   \<and> hook_error (Hooks sample_hooks) OnStart = None
   \<and> fst (generateFavicons sample_env (sample_options ''fresh'' sample_hooks)) =
       fst (generateFavicons sample_env
             (AList.update ''skipIfExists'' (Bool False) (sample_options ''fresh'' sample_hooks)))
   \<and> HookCall (OnSkipFiles ''out'')
       \<in> set (snd (generateFavicons sample_env (sample_options ''out'' sample_hooks)))
   \<and> fs_access sample_env ''out'' = None"
proof -
  have valid: "truthy (property (sample_options ''fresh'' sample_hooks) ''source'')"
    "truthy (property (sample_options ''fresh'' sample_hooks) ''outputDir'')"
    by (simp_all add: sample_options_def property_def)
  have probe: "truthy (with_default (Bool True) (property (sample_options ''fresh'' sample_hooks) ''skipIfExists''))"
    "fs_access sample_env (path_of (property (sample_options ''fresh'' sample_hooks) ''outputDir'')) \<noteq> None"
    "hook_error (property (sample_options ''fresh'' sample_hooks) ''hooks'') OnStart = None"
    by (simp_all add: sample_defs property_def with_default_def hook_error_def)
  from C10_probe_never_fails [OF valid, of sample_env] probe
  have same: "fst (generateFavicons sample_env (sample_options ''fresh'' sample_hooks)) =
       fst (generateFavicons sample_env
             (AList.update ''skipIfExists'' (Bool False) (sample_options ''fresh'' sample_hooks)))"
    by blast
  have valid': "truthy (property (sample_options ''out'' sample_hooks) ''source'')"
    "truthy (property (sample_options ''out'' sample_hooks) ''outputDir'')"
    by (simp_all add: sample_options_def property_def)
  have skipped: "HookCall (OnSkipFiles ''out'')
       \<in> set (snd (generateFavicons sample_env (sample_options ''out'' sample_hooks)))"
    by (simp add: run_existing)
  from C10_probe_never_fails [OF valid', of sample_env] skipped
  have "fs_access sample_env (path_of (property (sample_options ''out'' sample_hooks) ''outputDir'')) = None"
    by blast
  then have found: "fs_access sample_env ''out'' = None"
    by (simp add: sample_options_def property_def)
  from valid probe same skipped found show ?thesis
    by (simp add: sample_options_def property_def)
qed

end
